theory Spec2Isabelle
  imports Complex_Main
begin

section \<open>The training driver \<open>main_trainer.py\<close>\<close>

text \<open>
  The script is glue around a numerical library (jax, flax, optax, numpy) and two sibling
  modules (\<open>RotNet\<close>, \<open>utils.dataloader\<close>). The library's operations and the sibling
  modules are parameters of the model: every theorem below holds for whatever they compute.
  Device arrays are an opaque type \<open>'a\<close>, parameter trees an opaque type \<open>'p\<close>, the train
  state an opaque type \<open>'s\<close> and the optimizer an opaque type \<open>'t\<close>. Scalars taken out of
  arrays (a loss, an accuracy) are exact reals: rounding and NaN are outside the model.
  Library calls are taken to return; the errors of the model are the ones the script's own
  statements raise.
\<close>

subsection \<open>Errors, printed output, calls\<close>

datatype error = IndexError | KeyError string | SystemExit

text \<open>An argument of \<open>print\<close>, or a piece of an f-string: text, an integer, or a float
  with its format specification.\<close>

datatype piece = P_str string | P_int int | P_float string real

datatype loader =
  Train_loader | Validation_loader | Test_loader
  | Rot_train_loader | Rot_validation_loader | Rot_test_loader

text \<open>The calls \<open>main\<close> and \<open>train_epoch\<close> make that reach outside the pure numerical
  code, each with the arguments that identify it.\<close>

datatype 's call =
  Call_parse
  | Call_PRNGKey int
  | Call_split
  | Call_print "piece list"
  | Call_RotNet3
  | Call_load_data int int
  | Call_create_train_state real real
  | Call_exists string
  | Call_makedirs string
  | Call_exit
  | Call_tqdm int
  | Call_train_epoch 's loader bool int
  | Call_save_checkpoint string 's int
  | Call_eval_model 's loader int

text \<open>A run of effectful code: the calls made, in order, and either the error raised or
  the value returned.\<close>

type_synonym ('s, 'r) run = "'s call list \<times> (error + 'r)"

definition ret :: "'r \<Rightarrow> ('s, 'r) run" where
  "ret v = ([], Inr v)"

definition raise_error :: "error \<Rightarrow> ('s, 'r) run" where
  "raise_error e = ([], Inl e)"

definition emit :: "'s call \<Rightarrow> ('s, unit) run" where
  "emit c = ([c], Inr ())"

definition lift :: "error + 'r \<Rightarrow> ('s, 'r) run" where
  "lift r = ([], r)"

text \<open>Sequencing: an error raised by the first part skips the rest.\<close>

definition then_run :: "('s, 'q) run \<Rightarrow> ('q \<Rightarrow> ('s, 'r) run) \<Rightarrow> ('s, 'r) run" where
  "then_run m f =
     (case snd m of
        Inl e \<Rightarrow> (fst m, Inl e)
      | Inr v \<Rightarrow> (fst m @ fst (f v), snd (f v)))"

definition calls :: "('s, 'r) run \<Rightarrow> 's call list" where
  "calls m = fst m"

definition outcome :: "('s, 'r) run \<Rightarrow> error + 'r" where
  "outcome m = snd m"

subsection \<open>Command line (\<open>parse\<close>)\<close>

text \<open>What the command line supplies, after argparse has split it and converted each
  value with the option's \<open>type\<close>: \<open>None\<close> where the flag is absent. \<open>--CIFAR10\<close> has
  \<open>type=bool\<close>, so its text is kept and converted by Python's \<open>bool\<close>.\<close>

record cli =
  cli_data :: "string option"
  cli_workers :: "int option"
  cli_epochs :: "int option"
  cli_start_epoch :: "int option"
  cli_batch_size :: "int option"
  cli_weight_decay :: "real option"
  cli_model :: "string option"
  cli_CIFAR10 :: "string option"
  cli_num_classes :: "int option"
  cli_lr :: "real option"
  cli_momentum :: "real option"
  cli_dtype :: "string option"

record args =
  arg_data :: string
  arg_workers :: int
  arg_epochs :: int
  arg_start_epoch :: int
  arg_batch_size :: int
  arg_weight_decay :: real
  arg_model :: string
  arg_CIFAR10 :: bool
  arg_num_classes :: int
  arg_lr :: real
  arg_momentum :: real
  arg_dtype :: string

definition or_default :: "'v option \<Rightarrow> 'v \<Rightarrow> 'v" where
  "or_default given d = (case given of None \<Rightarrow> d | Some v \<Rightarrow> v)"

definition parse :: "cli \<Rightarrow> args" where
  "parse c =
     \<lparr> arg_data = or_default (cli_data c) ''ML/'',
       arg_workers = or_default (cli_workers c) 4,
       arg_epochs = or_default (cli_epochs c) 100,
       arg_start_epoch = or_default (cli_start_epoch c) 0,
       arg_batch_size = or_default (cli_batch_size c) 128,
       arg_weight_decay = or_default (cli_weight_decay c) (1 / 10000),
       arg_model = or_default (cli_model c) ''ResNet20'',
       arg_CIFAR10 = (case cli_CIFAR10 c of None \<Rightarrow> True | Some v \<Rightarrow> v \<noteq> []),
       arg_num_classes = or_default (cli_num_classes c) 10,
       arg_lr = or_default (cli_lr c) (1 / 1000),
       arg_momentum = or_default (cli_momentum c) (9 / 10),
       arg_dtype = or_default (cli_dtype c) ''fp32'' \<rparr>"

subsection \<open>The numerical library and the sibling modules\<close>

text \<open>The \<open>mutable\<close> argument of a flax \<open>apply\<close>: \<open>False\<close>, or a list of collection names.\<close>

datatype mutable = Mutable_False | Mutable "string list"

text \<open>A variable dictionary maps collection names (\<open>params\<close>, \<open>batch_stats\<close>) to trees.
  \<open>apply\<close> returns the output and the updated collections; with \<open>mutable=False\<close> the
  library returns the output alone, the first component here.\<close>

type_synonym 'p variables = "string \<rightharpoonup> 'p"

type_synonym ('a, 'p) apply_fn =
  "'p variables \<Rightarrow> 'a \<Rightarrow> mutable \<Rightarrow> bool \<Rightarrow> 'a \<times> 'p variables"

record ('a, 'p, 's, 't) library =
  jax_random_PRNGKey :: "int \<Rightarrow> 'a"
  jax_random_split :: "'a \<Rightarrow> 'a \<times> 'a"
  jax_nn_one_hot :: "'a \<Rightarrow> int \<Rightarrow> 'a"
  optax_softmax_cross_entropy :: "'a \<Rightarrow> 'a \<Rightarrow> 'a"
  jnp_mean :: "'a \<Rightarrow> real"
  jnp_argmax :: "'a \<Rightarrow> int \<Rightarrow> 'a"
  jnp_equal :: "'a \<Rightarrow> 'a \<Rightarrow> 'a"
  jnp_ones :: "nat list \<Rightarrow> string \<Rightarrow> 'a"
  jax_grad :: "('p \<Rightarrow> real) \<Rightarrow> 'p \<Rightarrow> 'p"
  optax_sgd :: "real \<Rightarrow> real \<Rightarrow> 't"
  TrainState_create :: "('a, 'p) apply_fn \<Rightarrow> 'p \<Rightarrow> 't \<Rightarrow> 's"
  state_apply_fn :: "'s \<Rightarrow> ('a, 'p) apply_fn"
  state_params :: "'s \<Rightarrow> 'p"
  state_apply_gradients :: "'s \<Rightarrow> 'p \<Rightarrow> 's"

text \<open>A flax module, as \<open>RotNet3()\<close> constructs one.\<close>

record ('a, 'p) module =
  module_init :: "'a \<Rightarrow> 'a \<Rightarrow> bool \<Rightarrow> 'p variables"
  module_apply :: "('a, 'p) apply_fn"
  module_dtype :: string

text \<open>A dataloader is the list of \<open>(images, labels)\<close> batches one iteration over it
  yields; its \<open>len\<close> is the number of batches.\<close>

type_synonym 'a dataloader = "('a \<times> 'a) list"

record 'a loaders =
  train_loader :: "'a dataloader"
  validation_loader :: "'a dataloader"
  test_loader :: "'a dataloader"
  rot_train_loader :: "'a dataloader"
  rot_validation_loader :: "'a dataloader"
  rot_test_loader :: "'a dataloader"

record ('a, 'p, 's, 't) env =
  lib :: "('a, 'p, 's, 't) library"
  RotNet3 :: "('a, 'p) module"
  load_data :: "int \<Rightarrow> int \<Rightarrow> 'a loaders"
  os_path_exists :: "string \<Rightarrow> bool"

subsection \<open>Loss and metrics\<close>

text \<open>A metrics dictionary, in insertion order.\<close>

type_synonym metrics = "(string \<times> real) list"

definition cross_entropy_loss ::
  "('a, 'p, 's, 't) library \<Rightarrow> 'a \<Rightarrow> 'a \<Rightarrow> int \<Rightarrow> real" where
  "cross_entropy_loss l logits labels num_classes =
     (let labels_onehot = jax_nn_one_hot l labels num_classes
      in jnp_mean l (optax_softmax_cross_entropy l logits labels_onehot))"

definition compute_metrics ::
  "('a, 'p, 's, 't) library \<Rightarrow> 'a \<Rightarrow> 'a \<Rightarrow> int \<Rightarrow> metrics" where
  "compute_metrics l logits labels num_classes =
     (let loss = cross_entropy_loss l logits labels num_classes;
          accuracy = jnp_mean l (jnp_equal l (jnp_argmax l logits (- 1)) labels)
      in [(''loss'', loss), (''accuracy'', accuracy)])"

subsection \<open>Train state and the single-batch steps\<close>

definition getitem :: "(string \<rightharpoonup> 'v) \<Rightarrow> string \<Rightarrow> error + 'v" where
  "getitem d k = (case d k of None \<Rightarrow> Inl (KeyError k) | Some v \<Rightarrow> Inr v)"

definition create_train_state ::
  "('a, 'p, 's, 't) library \<Rightarrow> 'a \<Rightarrow> ('a, 'p) module \<Rightarrow> real \<Rightarrow> real \<Rightarrow> error + 's" where
  "create_train_state l rng model learning_rate momentum =
     (let variables = module_init model rng (jnp_ones l [1, 32, 32, 3] (module_dtype model)) True
      in case getitem variables ''params'' of
           Inl e \<Rightarrow> Inl e
         | Inr params \<Rightarrow>
             (case getitem variables ''batch_stats'' of
                Inl e \<Rightarrow> Inl e
              | Inr batch_stats \<Rightarrow>
                  (let tx = optax_sgd l learning_rate momentum
                   in Inr (TrainState_create l (module_apply model) params tx))))"

text \<open>The closure \<open>loss_fn\<close> of \<open>train_batch\<close>, with the variables it captures as
  arguments.\<close>

definition loss_fn ::
  "('a, 'p, 's, 't) library \<Rightarrow> 's \<Rightarrow> 'a \<Rightarrow> 'a \<Rightarrow> int \<Rightarrow> 'p
     \<Rightarrow> real \<times> ('a \<times> 'p variables)" where
  "loss_fn l state images labels num_classes params =
     (let (logits, new_state) =
            state_apply_fn l state [''params'' \<mapsto> params] images (Mutable [''batch_stats'']) True;
          loss = cross_entropy_loss l logits labels num_classes
      in (loss, (logits, new_state)))"

text \<open>\<open>jax.value_and_grad(f, has_aux=True)\<close>: the value of \<open>f\<close> at the point, and the
  gradient of its first component there.\<close>

definition value_and_grad ::
  "('a, 'p, 's, 't) library \<Rightarrow> ('p \<Rightarrow> real \<times> 'x) \<Rightarrow> 'p \<Rightarrow> (real \<times> 'x) \<times> 'p" where
  "value_and_grad l f x = (f x, jax_grad l (\<lambda>y. fst (f y)) x)"

definition train_batch ::
  "('a, 'p, 's, 't) library \<Rightarrow> 's \<Rightarrow> 'a \<Rightarrow> 'a \<Rightarrow> int \<Rightarrow> 's \<times> metrics" where
  "train_batch l state images labels num_classes =
     (let grad_fn = value_and_grad l (loss_fn l state images labels num_classes);
          (aux, grads) = grad_fn (state_params l state);
          (logits, new_state) = snd aux;
          state = state_apply_gradients l state grads;
          metrics = compute_metrics l logits labels num_classes
      in (state, metrics))"

definition eval_batch ::
  "('a, 'p, 's, 't) library \<Rightarrow> 's \<Rightarrow> 'a \<Rightarrow> 'a \<Rightarrow> int \<Rightarrow> metrics" where
  "eval_batch l state images labels num_classes =
     (let logits =
            fst (state_apply_fn l state [''params'' \<mapsto> state_params l state] images
                   Mutable_False False)
      in compute_metrics l logits labels num_classes)"

subsection \<open>Averaging the per-batch metrics\<close>

text \<open>\<open>np.mean\<close> of a list of scalars. It is only ever called on a list with one entry per
  batch of a non-empty pass.\<close>

definition np_mean :: "real list \<Rightarrow> real" where
  "np_mean xs = sum_list xs / real (length xs)"

definition dict_getitem :: "metrics \<Rightarrow> string \<Rightarrow> error + real" where
  "dict_getitem d k = getitem (map_of d) k"

text \<open>A list or dictionary comprehension whose element expressions may raise: the first
  error, in evaluation order, ends it.\<close>

fun collect :: "(error + 'v) list \<Rightarrow> error + 'v list" where
  "collect [] = Inr []"
| "collect (Inl e # rs) = Inl e"
| "collect (Inr v # rs) = (case collect rs of Inl e \<Rightarrow> Inl e | Inr vs \<Rightarrow> Inr (v # vs))"

text \<open>\<open>{k: np.mean([metrics[k] for metrics in batch_metrics_np]) for k in
  batch_metrics_np[0]}\<close>\<close>

definition mean_of_key :: "metrics list \<Rightarrow> string \<Rightarrow> error + (string \<times> real)" where
  "mean_of_key batch_metrics_np k =
     (case collect (map (\<lambda>metrics. dict_getitem metrics k) batch_metrics_np) of
        Inl e \<Rightarrow> Inl e
      | Inr vs \<Rightarrow> Inr (k, np_mean vs))"

definition epoch_means :: "metrics list \<Rightarrow> error + metrics" where
  "epoch_means batch_metrics_np =
     (case batch_metrics_np of
        [] \<Rightarrow> Inl IndexError
      | first # _ \<Rightarrow> collect (map (mean_of_key batch_metrics_np) (map fst first)))"

text \<open>\<open>jax.device_get\<close> copies the values to the host and leaves them as they are.\<close>

definition device_get :: "metrics list \<Rightarrow> metrics list" where
  "device_get batch_metrics = batch_metrics"

subsection \<open>The epoch drivers\<close>

text \<open>The \<open>for\<close> loop of \<open>train_epoch\<close>: \<open>n\<close> is \<open>len(dataloader)\<close>, \<open>i\<close> the counter,
  \<open>batch_metrics\<close> the list appended to.\<close>

fun train_epoch_loop ::
  "('a, 'p, 's, 't) library \<Rightarrow> int \<Rightarrow> int \<Rightarrow> 's \<Rightarrow> int \<Rightarrow> metrics list \<Rightarrow> 'a dataloader
     \<Rightarrow> ('s, 's \<times> metrics list) run" where
  "train_epoch_loop l num_classes n state i batch_metrics [] = ret (state, batch_metrics)"
| "train_epoch_loop l num_classes n state i batch_metrics ((images, labels) # rest) =
     then_run (emit (Call_print [P_int i, P_str ''/'', P_int n])) (\<lambda>_.
       (let (state', metrics) = train_batch l state images labels num_classes
        in train_epoch_loop l num_classes n state' (i + 1) (batch_metrics @ [metrics]) rest))"

definition train_epoch ::
  "('a, 'p, 's, 't) library \<Rightarrow> 's \<Rightarrow> 'a dataloader \<Rightarrow> bool \<Rightarrow> int \<Rightarrow> ('s, 's \<times> metrics) run" where
  "train_epoch l state dataloader rot_train num_classes =
     then_run (train_epoch_loop l num_classes (int (length dataloader)) state 0 [] dataloader)
       (\<lambda>(state', batch_metrics).
          (let batch_metrics_np = device_get batch_metrics
           in then_run (lift (epoch_means batch_metrics_np)) (\<lambda>epoch_metrics_np.
                ret (state', epoch_metrics_np))))"

fun eval_model_loop ::
  "('a, 'p, 's, 't) library \<Rightarrow> int \<Rightarrow> 's \<Rightarrow> metrics list \<Rightarrow> 'a dataloader \<Rightarrow> metrics list" where
  "eval_model_loop l num_classes state batch_metrics [] = batch_metrics"
| "eval_model_loop l num_classes state batch_metrics ((images, labels) # rest) =
     (let metrics = eval_batch l state images labels num_classes
      in eval_model_loop l num_classes state (batch_metrics @ [metrics]) rest)"

definition eval_model ::
  "('a, 'p, 's, 't) library \<Rightarrow> 's \<Rightarrow> 'a dataloader \<Rightarrow> int \<Rightarrow> ('s, real \<times> real) run" where
  "eval_model l state dataloader num_classes =
     (let batch_metrics = eval_model_loop l num_classes state [] dataloader;
          batch_metrics_np = device_get batch_metrics
      in then_run (lift (epoch_means batch_metrics_np)) (\<lambda>validation_metrics_np.
         then_run (lift (dict_getitem validation_metrics_np ''loss'')) (\<lambda>loss.
         then_run (lift (dict_getitem validation_metrics_np ''accuracy'')) (\<lambda>accuracy.
           ret (loss, accuracy)))))"

subsection \<open>\<open>main\<close>\<close>

text \<open>Lines 127 to 160: everything up to the call of \<open>exit\<close>.\<close>

definition main_setup ::
  "('a, 'p, 's, 't) env \<Rightarrow> cli \<Rightarrow> ('s, args \<times> 'a loaders \<times> 's) run" where
  "main_setup e c =
     then_run (emit Call_parse) (\<lambda>_.
     (let args = parse c in
     then_run (emit (Call_PRNGKey 0)) (\<lambda>_.
     (let rng = jax_random_PRNGKey (lib e) 0 in
     then_run (emit Call_split) (\<lambda>_.
     (let (rng, _) = jax_random_split (lib e) rng in
     then_run (emit (Call_print [P_str ''Random Gen Complete''])) (\<lambda>_.
     then_run (emit Call_RotNet3) (\<lambda>_.
     (let model = RotNet3 e in
     then_run (emit (Call_print [P_str ''Network Defined''])) (\<lambda>_.
     then_run (emit (Call_load_data (arg_batch_size args) 4)) (\<lambda>_.
     (let loaders = load_data e (arg_batch_size args) 4 in
     then_run (emit (Call_print [P_str ''Data Loaded!''])) (\<lambda>_.
     then_run (emit (Call_create_train_state (arg_lr args) (arg_momentum args))) (\<lambda>_.
     then_run (lift (create_train_state (lib e) rng model (arg_lr args) (arg_momentum args)))
       (\<lambda>state.
     then_run (emit (Call_print [P_str ''Train State Created''])) (\<lambda>_.
     (let path = ''./state_root'' in
     then_run (emit (Call_exists path)) (\<lambda>_.
     (let isExist = os_path_exists e path in
     then_run
       (if \<not> isExist
        then then_run (emit (Call_makedirs path)) (\<lambda>_.
               emit (Call_print [P_str ''creating root directory for state'']))
        else emit (Call_print [P_str ''find existing root directory for state'']))
       (\<lambda>_. ret (args, loaders, state)))))))))))))))))))))"

text \<open>Lines 168 to 188: the body of the epoch loop.\<close>

definition epoch_body ::
  "('a, 'p, 's, 't) env \<Rightarrow> 'a loaders \<Rightarrow> 's \<Rightarrow> int \<Rightarrow> ('s, 's) run" where
  "epoch_body e loaders state epoch =
     then_run (emit (Call_train_epoch state Rot_train_loader True 4)) (\<lambda>_.
     then_run (train_epoch (lib e) state (rot_train_loader loaders) True 4)
       (\<lambda>(state, train_epoch_metrics_np).
     then_run (emit (Call_save_checkpoint ''./state_root'' state epoch)) (\<lambda>_.
     then_run (lift (dict_getitem train_epoch_metrics_np ''loss'')) (\<lambda>loss.
     then_run (lift (dict_getitem train_epoch_metrics_np ''accuracy'')) (\<lambda>accuracy.
     then_run (emit (Call_print
        [P_str ''train epoch: '', P_int epoch,
         P_str '',             loss: '', P_float ''.4f'' loss,
         P_str '',             accuracy:'', P_float ''.2f'' (accuracy * 100), P_str ''%'']))
       (\<lambda>_.
     then_run (emit (Call_eval_model state Rot_validation_loader 4)) (\<lambda>_.
     then_run (eval_model (lib e) state (rot_validation_loader loaders) 4)
       (\<lambda>(validation_loss, _).
     then_run (emit (Call_print [P_str ''validation loss: '', P_float ''.4f'' validation_loss]))
       (\<lambda>_.
     then_run
       (if epoch mod 10 = 0
        then then_run (emit (Call_eval_model state Rot_test_loader 4)) (\<lambda>_.
             then_run (eval_model (lib e) state (rot_test_loader loaders) 4)
               (\<lambda>(_, test_accuracy).
               emit (Call_print [P_str ''test_accuracy: '', P_float ''.2f'' test_accuracy])))
        else ret ())
       (\<lambda>_. ret state))))))))))"

text \<open>\<open>range(n)\<close>\<close>

definition range_int :: "int \<Rightarrow> int list" where
  "range_int n = map int [0..<nat n]"

text \<open>\<open>for epoch in ...\<close>: the state is rebound in each iteration.\<close>

fun training_loop ::
  "('a, 'p, 's, 't) env \<Rightarrow> 'a loaders \<Rightarrow> 's \<Rightarrow> int list \<Rightarrow> ('s, 's) run" where
  "training_loop e loaders state [] = ret state"
| "training_loop e loaders state (epoch # rest) =
     then_run (epoch_body e loaders state epoch) (\<lambda>state'.
       training_loop e loaders state' rest)"

text \<open>\<open>exit()\<close> raises \<open>SystemExit\<close>.\<close>

definition exit :: "unit \<Rightarrow> ('s, unit) run" where
  "exit _ = then_run (emit Call_exit) (\<lambda>_. raise_error SystemExit)"

text \<open>Lines 163 to 188: the statements after the call of \<open>exit\<close>.\<close>

definition main_training ::
  "('a, 'p, 's, 't) env \<Rightarrow> args \<Rightarrow> 'a loaders \<Rightarrow> 's \<Rightarrow> ('s, unit) run" where
  "main_training e args loaders state =
     then_run (emit (Call_print [P_str ''Starting Training Loop!''])) (\<lambda>_.
     then_run (emit (Call_tqdm (arg_epochs args))) (\<lambda>_.
     then_run (training_loop e loaders state (range_int (arg_epochs args))) (\<lambda>_.
       ret ())))"

definition main :: "('a, 'p, 's, 't) env \<Rightarrow> cli \<Rightarrow> ('s, unit) run" where
  "main e c =
     then_run (main_setup e c) (\<lambda>(args, loaders, state).
     then_run (exit ()) (\<lambda>_.
       main_training e args loaders state))"

section \<open>Quantities the statements speak of\<close>

text \<open>The state after the batches of one training pass, and the metrics dictionary each
  \<open>train_batch\<close> call of the pass returns, the state threaded from batch to batch.\<close>

fun train_pass_state :: "('a, 'p, 's, 't) library \<Rightarrow> int \<Rightarrow> 's \<Rightarrow> 'a dataloader \<Rightarrow> 's" where
  "train_pass_state l num_classes state [] = state"
| "train_pass_state l num_classes state ((images, labels) # rest) =
     train_pass_state l num_classes (fst (train_batch l state images labels num_classes)) rest"

fun train_pass_metrics ::
  "('a, 'p, 's, 't) library \<Rightarrow> int \<Rightarrow> 's \<Rightarrow> 'a dataloader \<Rightarrow> metrics list" where
  "train_pass_metrics l num_classes state [] = []"
| "train_pass_metrics l num_classes state ((images, labels) # rest) =
     snd (train_batch l state images labels num_classes)
       # train_pass_metrics l num_classes (fst (train_batch l state images labels num_classes)) rest"

text \<open>The metrics dictionary each \<open>eval_batch\<close> call of one evaluation pass returns.\<close>

definition eval_pass_metrics ::
  "('a, 'p, 's, 't) library \<Rightarrow> int \<Rightarrow> 's \<Rightarrow> 'a dataloader \<Rightarrow> metrics list" where
  "eval_pass_metrics l num_classes state dataloader =
     map (\<lambda>(images, labels). eval_batch l state images labels num_classes) dataloader"

text \<open>The lines \<open>i / n\<close> a training pass prints, from counter \<open>i\<close>, for \<open>k\<close> batches.\<close>

definition progress_lines :: "int \<Rightarrow> int \<Rightarrow> nat \<Rightarrow> 's call list" where
  "progress_lines n i k = map (\<lambda>j. Call_print [P_int (i + int j), P_str ''/'', P_int n]) [0..<k]"

text \<open>The value a metrics dictionary holds under a key it has, and the keys
  \<open>compute_metrics\<close> writes.\<close>

definition value_at :: "string \<Rightarrow> metrics \<Rightarrow> real" where
  "value_at k m = (case map_of m k of None \<Rightarrow> 0 | Some v \<Rightarrow> v)"

definition metric_keys :: "string list" where
  "metric_keys = [''loss'', ''accuracy'']"

text \<open>The state after \<open>k\<close> iterations of the epoch loop: \<open>k\<close> training passes over the
  rotation training loader.\<close>

fun state_after_epochs :: "('a, 'p, 's, 't) env \<Rightarrow> 'a loaders \<Rightarrow> 's \<Rightarrow> nat \<Rightarrow> 's" where
  "state_after_epochs e loaders state 0 = state"
| "state_after_epochs e loaders state (Suc k) =
     state_after_epochs e loaders
       (train_pass_state (lib e) 4 state (rot_train_loader loaders)) k"

text \<open>The three loaders the epoch loop iterates over yield at least one batch each.\<close>

definition loaders_nonempty :: "'a loaders \<Rightarrow> bool" where
  "loaders_nonempty loaders \<longleftrightarrow>
     rot_train_loader loaders \<noteq> [] \<and> rot_validation_loader loaders \<noteq> []
     \<and> rot_test_loader loaders \<noteq> []"

text \<open>The calls of the setup phase: up to the creation of the train state, and from there
  to the creation of the checkpoint directory. \<open>setup_rng\<close> is the key \<open>main\<close> passes on.\<close>

definition setup_rng :: "('a, 'p, 's, 't) env \<Rightarrow> 'a" where
  "setup_rng e = fst (jax_random_split (lib e) (jax_random_PRNGKey (lib e) 0))"

definition setup_calls :: "args \<Rightarrow> 's call list" where
  "setup_calls a =
     [Call_parse, Call_PRNGKey 0, Call_split, Call_print [P_str ''Random Gen Complete''],
      Call_RotNet3, Call_print [P_str ''Network Defined''],
      Call_load_data (arg_batch_size a) 4, Call_print [P_str ''Data Loaded!''],
      Call_create_train_state (arg_lr a) (arg_momentum a)]"

definition directory_calls :: "bool \<Rightarrow> 's call list" where
  "directory_calls isExist =
     [Call_print [P_str ''Train State Created''], Call_exists ''./state_root'']
     @ (if isExist
        then [Call_print [P_str ''find existing root directory for state'']]
        else [Call_makedirs ''./state_root'',
              Call_print [P_str ''creating root directory for state'']])"

text \<open>A call that only the statements after \<open>exit()\<close> make: a training pass, a checkpoint
  save, an evaluation, the progress bar, the message that opens the loop, or a print that
  holds a number (a progress line or a metric; the messages of the setup phase are plain
  text).\<close>

fun numeric :: "piece \<Rightarrow> bool" where
  "numeric (P_str s) = False"
| "numeric (P_int i) = True"
| "numeric (P_float f x) = True"

fun after_exit :: "'s call \<Rightarrow> bool" where
  "after_exit (Call_train_epoch s ld r n) = True"
| "after_exit (Call_save_checkpoint d s n) = True"
| "after_exit (Call_eval_model s ld n) = True"
| "after_exit (Call_tqdm n) = True"
| "after_exit (Call_print ps) = (list_ex numeric ps \<or> ps = [P_str ''Starting Training Loop!''])"
| "after_exit c = False"

text \<open>Kinds of call, and the calls of one epoch iteration apart from what it prints.\<close>

fun is_print :: "'s call \<Rightarrow> bool" where
  "is_print (Call_print ps) = True"
| "is_print c = False"

fun is_save_checkpoint :: "'s call \<Rightarrow> bool" where
  "is_save_checkpoint (Call_save_checkpoint d s n) = True"
| "is_save_checkpoint c = False"

definition epoch_skeleton ::
  "('a, 'p, 's, 't) env \<Rightarrow> 'a loaders \<Rightarrow> 's \<Rightarrow> int \<Rightarrow> 's call list" where
  "epoch_skeleton e loaders state epoch =
     (let state' = train_pass_state (lib e) 4 state (rot_train_loader loaders)
      in [Call_train_epoch state Rot_train_loader True 4,
          Call_save_checkpoint ''./state_root'' state' epoch,
          Call_eval_model state' Rot_validation_loader 4]
         @ (if epoch mod 10 = 0 then [Call_eval_model state' Rot_test_loader 4] else []))"

text \<open>The phases of the script, and the phases a list of calls goes through.\<close>

datatype phase = Parse_args | Build_model | Load_data | Train | Evaluate | Checkpoint

fun phase_of :: "'s call \<Rightarrow> phase list" where
  "phase_of Call_parse = [Parse_args]"
| "phase_of Call_RotNet3 = [Build_model]"
| "phase_of (Call_load_data b w) = [Load_data]"
| "phase_of (Call_train_epoch s ld r n) = [Train]"
| "phase_of (Call_eval_model s ld n) = [Evaluate]"
| "phase_of (Call_save_checkpoint d s n) = [Checkpoint]"
| "phase_of c = []"

definition phases :: "'s call list \<Rightarrow> phase list" where
  "phases cs = concat (map phase_of cs)"

text \<open>The order as the specification words it, for \<open>n\<close> epochs: parse, build the model,
  load the data, then per epoch train, evaluate, checkpoint.\<close>

definition claimed_phases :: "nat \<Rightarrow> phase list" where
  "claimed_phases n =
     [Parse_args, Build_model, Load_data] @ concat (replicate n [Train, Evaluate, Checkpoint])"

text \<open>The arithmetic mean of a list of reals.\<close>

definition mean_over :: "real list \<Rightarrow> real" where
  "mean_over xs = sum_list xs / real (length xs)"

text \<open>What the words of the loss and the accuracy mean on a batch of rows of logits and a
  batch of integer labels, over exact reals: the one-hot row of a label, the log-softmax of
  a row, the softmax cross-entropy of a row against a target row (minus the sum of target
  times log-softmax), the argmax of a row (the first index of its maximum), and the fraction
  of positions whose argmax is the label.\<close>

definition one_hot_row :: "int \<Rightarrow> int \<Rightarrow> real list" where
  "one_hot_row num_classes y = map (\<lambda>j. if int j = y then 1 else 0) [0..<nat num_classes]"

definition log_softmax_row :: "real list \<Rightarrow> real list" where
  "log_softmax_row z = map (\<lambda>x. x - ln (sum_list (map exp z))) z"

definition softmax_cross_entropy_row :: "real list \<Rightarrow> real list \<Rightarrow> real" where
  "softmax_cross_entropy_row z t = - sum_list (map2 (\<lambda>tj lj. tj * lj) t (log_softmax_row z))"

fun argmax_row :: "real list \<Rightarrow> nat" where
  "argmax_row [] = 0"
| "argmax_row (x # xs) = (if \<forall>y \<in> set xs. y \<le> x then 0 else Suc (argmax_row xs))"

definition match_fraction :: "real list list \<Rightarrow> int list \<Rightarrow> real" where
  "match_fraction zs ys =
     real (length (filter (\<lambda>(z, y). int (argmax_row z) = y) (zip zs ys))) / real (length ys)"

text \<open>The library computes what its documentation says, read through three views of an
  array (its rows of reals, its reals, its integers): \<open>one_hot\<close> gives one one-hot row per
  label; \<open>softmax_cross_entropy\<close> on two arrays of equally many rows of equal lengths gives
  one cross-entropy per row; \<open>mean\<close> of a non-empty array is the arithmetic mean of its
  entries; \<open>argmax\<close> over the last axis of non-empty rows gives the argmax of each row;
  \<open>==\<close> on two integer arrays of equal length gives 1 where they agree and 0 elsewhere.\<close>

definition library_as_documented ::
  "('a, 'p, 's, 't) library \<Rightarrow> ('a \<Rightarrow> real list list) \<Rightarrow> ('a \<Rightarrow> real list) \<Rightarrow> ('a \<Rightarrow> int list)
     \<Rightarrow> bool" where
  "library_as_documented l rows vec ints \<longleftrightarrow>
     (\<forall>y n. rows (jax_nn_one_hot l y n) = map (one_hot_row n) (ints y))
     \<and> (\<forall>z t. length (rows z) = length (rows t)
            \<and> (\<forall>(r, s) \<in> set (zip (rows z) (rows t)). length r = length s)
          \<longrightarrow> vec (optax_softmax_cross_entropy l z t)
                = map2 softmax_cross_entropy_row (rows z) (rows t))
     \<and> (\<forall>a. vec a \<noteq> [] \<longrightarrow> jnp_mean l a = sum_list (vec a) / real (length (vec a)))
     \<and> (\<forall>z. (\<forall>r \<in> set (rows z). r \<noteq> [])
          \<longrightarrow> ints (jnp_argmax l z (- 1)) = map (\<lambda>r. int (argmax_row r)) (rows z))
     \<and> (\<forall>a b. length (ints a) = length (ints b)
          \<longrightarrow> vec (jnp_equal l a b)
                = map2 (\<lambda>x y. if x = y then 1 else 0) (ints a) (ints b))"

text \<open>The loss and the accuracy of one batch, the logits of the two ways of applying the
  model, and one gradient step, each written with the library's operations alone.\<close>

definition batch_loss :: "('a, 'p, 's, 't) library \<Rightarrow> 'a \<Rightarrow> 'a \<Rightarrow> int \<Rightarrow> real" where
  "batch_loss l logits labels num_classes =
     jnp_mean l (optax_softmax_cross_entropy l logits (jax_nn_one_hot l labels num_classes))"

definition batch_accuracy :: "('a, 'p, 's, 't) library \<Rightarrow> 'a \<Rightarrow> 'a \<Rightarrow> real" where
  "batch_accuracy l logits labels = jnp_mean l (jnp_equal l (jnp_argmax l logits (- 1)) labels)"

definition inference_logits :: "('a, 'p, 's, 't) library \<Rightarrow> 's \<Rightarrow> 'a \<Rightarrow> 'a" where
  "inference_logits l state images =
     fst (state_apply_fn l state [''params'' \<mapsto> state_params l state] images Mutable_False False)"

definition training_logits :: "('a, 'p, 's, 't) library \<Rightarrow> 's \<Rightarrow> 'p \<Rightarrow> 'a \<Rightarrow> 'a" where
  "training_logits l state params images =
     fst (state_apply_fn l state [''params'' \<mapsto> params] images (Mutable [''batch_stats'']) True)"

definition gradient_step :: "('a, 'p, 's, 't) library \<Rightarrow> int \<Rightarrow> 's \<Rightarrow> 'a \<times> 'a \<Rightarrow> 's" where
  "gradient_step l num_classes state batch =
     state_apply_gradients l state
       (jax_grad l
          (\<lambda>params. batch_loss l (training_logits l state params (fst batch)) (snd batch) num_classes)
          (state_params l state))"

text \<open>One training pass in the same terms: the state after it, and the loss and the
  accuracy of each batch, computed on the state before that batch's step.\<close>

definition trained :: "('a, 'p, 's, 't) library \<Rightarrow> int \<Rightarrow> 's \<Rightarrow> 'a dataloader \<Rightarrow> 's" where
  "trained l num_classes state dataloader = foldl (gradient_step l num_classes) state dataloader"

fun pass_losses :: "('a, 'p, 's, 't) library \<Rightarrow> int \<Rightarrow> 's \<Rightarrow> 'a dataloader \<Rightarrow> real list" where
  "pass_losses l num_classes state [] = []"
| "pass_losses l num_classes state (batch # rest) =
     batch_loss l (training_logits l state (state_params l state) (fst batch)) (snd batch) num_classes
       # pass_losses l num_classes (gradient_step l num_classes state batch) rest"

fun pass_accuracies :: "('a, 'p, 's, 't) library \<Rightarrow> int \<Rightarrow> 's \<Rightarrow> 'a dataloader \<Rightarrow> real list" where
  "pass_accuracies l num_classes state [] = []"
| "pass_accuracies l num_classes state (batch # rest) =
     batch_accuracy l (training_logits l state (state_params l state) (fst batch)) (snd batch)
       # pass_accuracies l num_classes (gradient_step l num_classes state batch) rest"

text \<open>One evaluation pass in the same terms: the means of the per-batch loss and accuracy
  of the model applied with \<open>mutable=False\<close> and \<open>train=False\<close>.\<close>

definition inference_loss :: "('a, 'p, 's, 't) library \<Rightarrow> int \<Rightarrow> 's \<Rightarrow> 'a dataloader \<Rightarrow> real" where
  "inference_loss l num_classes state dataloader =
     mean_over (map (\<lambda>batch. batch_loss l (inference_logits l state (fst batch)) (snd batch)
                                num_classes) dataloader)"

definition inference_accuracy :: "('a, 'p, 's, 't) library \<Rightarrow> 's \<Rightarrow> 'a dataloader \<Rightarrow> real" where
  "inference_accuracy l state dataloader =
     mean_over (map (\<lambda>batch. batch_accuracy l (inference_logits l state (fst batch)) (snd batch))
                  dataloader)"

text \<open>The state after \<open>k\<close> epochs, and every call of one iteration of the epoch loop that
  starts in a given state, in order and with the values printed.\<close>

fun epochs_trained :: "('a, 'p, 's, 't) env \<Rightarrow> 'a loaders \<Rightarrow> 's \<Rightarrow> nat \<Rightarrow> 's" where
  "epochs_trained e loaders state 0 = state"
| "epochs_trained e loaders state (Suc k) =
     epochs_trained e loaders (trained (lib e) 4 state (rot_train_loader loaders)) k"

definition epoch_calls ::
  "('a, 'p, 's, 't) env \<Rightarrow> 'a loaders \<Rightarrow> 's \<Rightarrow> int \<Rightarrow> 's call list" where
  "epoch_calls e loaders state epoch =
     (let batches = rot_train_loader loaders;
          state' = trained (lib e) 4 state batches
      in [Call_train_epoch state Rot_train_loader True 4]
         @ map (\<lambda>i. Call_print [P_int (int i), P_str ''/'', P_int (int (length batches))])
             [0..<length batches]
         @ [Call_save_checkpoint ''./state_root'' state' epoch,
            Call_print
              [P_str ''train epoch: '', P_int epoch,
               P_str '',             loss: '',
               P_float ''.4f'' (mean_over (pass_losses (lib e) 4 state batches)),
               P_str '',             accuracy:'',
               P_float ''.2f'' (mean_over (pass_accuracies (lib e) 4 state batches) * 100),
               P_str ''%''],
            Call_eval_model state' Rot_validation_loader 4,
            Call_print
              [P_str ''validation loss: '',
               P_float ''.4f'' (inference_loss (lib e) 4 state' (rot_validation_loader loaders))]]
         @ (if epoch mod 10 = 0
            then [Call_eval_model state' Rot_test_loader 4,
                  Call_print
                    [P_str ''test_accuracy: '',
                     P_float ''.2f'' (inference_accuracy (lib e) state' (rot_test_loader loaders))]]
            else []))"

text \<open>A call that belongs to the validation evaluation of an iteration: the evaluation on
  the rotation validation loader, or the print of the validation loss.\<close>

fun is_validation_report :: "'s call \<Rightarrow> bool" where
  "is_validation_report (Call_eval_model s ld n) = (ld = Rot_validation_loader)"
| "is_validation_report (Call_print ps) =
     (case ps of [] \<Rightarrow> False | p # _ \<Rightarrow> p = P_str ''validation loss: '')"
| "is_validation_report c = False"

section \<open>A small instance for running the definitions\<close>

text \<open>A one-weight linear model with a squared-error loss stands in for the library and
  the network, so that the definitions can be evaluated on concrete inputs. The train state
  is (step, weight, learning rate). \<open>tiny_inference_apply\<close> is the same model for
  \<open>mutable=False\<close>, \<open>train=False\<close> and returns nothing in any other mode.\<close>

definition tiny_apply :: "(real list, real) apply_fn" where
  "tiny_apply variables images mutable train =
     (case variables ''params'' of
        None \<Rightarrow> ([], Map.empty)
      | Some w \<Rightarrow>
          (map (\<lambda>x. w * x) images,
           case mutable of Mutable_False \<Rightarrow> Map.empty | Mutable _ \<Rightarrow> [''batch_stats'' \<mapsto> w]))"

definition tiny_inference_apply :: "int \<times> real \<times> real \<Rightarrow> (real list, real) apply_fn" where
  "tiny_inference_apply state variables images mutable train =
     (if mutable = Mutable_False \<and> \<not> train then tiny_apply variables images mutable train
      else ([], Map.empty))"

definition tiny_lib :: "(real list, real, int \<times> real \<times> real, real) library" where
  "tiny_lib =
     \<lparr> jax_random_PRNGKey = (\<lambda>seed. [real_of_int seed]),
       jax_random_split = (\<lambda>key. (key, key)),
       jax_nn_one_hot = (\<lambda>labels n. labels),
       optax_softmax_cross_entropy = (\<lambda>logits targets. map2 (\<lambda>z t. (z - t) * (z - t)) logits targets),
       jnp_mean = (\<lambda>xs. sum_list xs / real (length xs)),
       jnp_argmax = (\<lambda>logits axis. map (\<lambda>z. if z < 3 / 2 then 1 else 2) logits),
       jnp_equal = (\<lambda>xs ys. map2 (\<lambda>x y. if x = y then 1 else 0) xs ys),
       jnp_ones = (\<lambda>shape dt. [1]),
       jax_grad = (\<lambda>f p. (f (p + 1) - f (p - 1)) / 2),
       optax_sgd = (\<lambda>learning_rate momentum. learning_rate),
       TrainState_create = (\<lambda>f params tx. (0, params, tx)),
       state_apply_fn = (\<lambda>state. tiny_apply),
       state_params = (\<lambda>state. fst (snd state)),
       state_apply_gradients =
         (\<lambda>state grads. (fst state + 1, fst (snd state) - snd (snd state) * grads, snd (snd state))) \<rparr>"

definition tiny_module :: "(real list, real) module" where
  "tiny_module =
     \<lparr> module_init = (\<lambda>rng x train. [''params'' \<mapsto> 2, ''batch_stats'' \<mapsto> 0]),
       module_apply = tiny_apply,
       module_dtype = ''float32'' \<rparr>"

definition tiny_batches :: "real list dataloader" where
  "tiny_batches = [([1], [1]), ([1, 2], [1, 2])]"

definition tiny_loaders :: "real list loaders" where
  "tiny_loaders =
     \<lparr> train_loader = [], validation_loader = [], test_loader = [],
       rot_train_loader = tiny_batches, rot_validation_loader = [([1], [2])],
       rot_test_loader = [([2], [2])] \<rparr>"

definition tiny_env :: "(real list, real, int \<times> real \<times> real, real) env" where
  "tiny_env =
     \<lparr> lib = tiny_lib, RotNet3 = tiny_module, load_data = (\<lambda>batch_size workers. tiny_loaders),
       os_path_exists = (\<lambda>path. False) \<rparr>"

definition tiny_cli :: cli where
  "tiny_cli =
     \<lparr> cli_data = None, cli_workers = None, cli_epochs = Some 2, cli_start_epoch = None,
       cli_batch_size = None, cli_weight_decay = None, cli_model = Some ''RotNet5'',
       cli_CIFAR10 = None, cli_num_classes = None, cli_lr = Some (1 / 4), cli_momentum = None,
       cli_dtype = None \<rparr>"

text \<open>A second instance, for the loss and the accuracy: arrays are integer vectors, real
  vectors or matrices of reals, and the array operations are the ones described above.
  The parts of the library that have to do with the train state are trivial here.\<close>

datatype tensor = Ints "int list" | Vec "real list" | Mat "real list list"

fun rows_of :: "tensor \<Rightarrow> real list list" where
  "rows_of (Mat zs) = zs"
| "rows_of t = []"

fun vec_of :: "tensor \<Rightarrow> real list" where
  "vec_of (Vec xs) = xs"
| "vec_of t = []"

fun ints_of :: "tensor \<Rightarrow> int list" where
  "ints_of (Ints ys) = ys"
| "ints_of t = []"

definition exact_lib :: "(tensor, unit, unit, unit) library" where
  "exact_lib =
     \<lparr> jax_random_PRNGKey = (\<lambda>seed. Ints [0, seed]),
       jax_random_split = (\<lambda>key. (key, key)),
       jax_nn_one_hot = (\<lambda>labels n. Mat (map (one_hot_row n) (ints_of labels))),
       optax_softmax_cross_entropy =
         (\<lambda>logits targets. Vec (map2 softmax_cross_entropy_row (rows_of logits) (rows_of targets))),
       jnp_mean = (\<lambda>a. sum_list (vec_of a) / real (length (vec_of a))),
       jnp_argmax = (\<lambda>logits axis. Ints (map (\<lambda>r. int (argmax_row r)) (rows_of logits))),
       jnp_equal =
         (\<lambda>a b. Vec (map2 (\<lambda>x y. if x = y then 1 else 0) (ints_of a) (ints_of b))),
       jnp_ones = (\<lambda>shape dt. Vec [1]),
       jax_grad = (\<lambda>f p. ()),
       optax_sgd = (\<lambda>learning_rate momentum. ()),
       TrainState_create = (\<lambda>f params tx. ()),
       state_apply_fn = (\<lambda>state variables images mutable train. (images, Map.empty)),
       state_params = (\<lambda>state. ()),
       state_apply_gradients = (\<lambda>state grads. ()) \<rparr>"

section \<open>Auxiliary facts\<close>

lemma then_run_emit: "then_run (emit c) f = (c # fst (f ()), snd (f ()))"
  by (simp add: then_run_def emit_def)

lemma then_run_lift_Inr: "then_run (lift (Inr v)) f = f v"
  by (simp add: then_run_def lift_def)

lemma then_run_lift_Inl: "then_run (lift (Inl err)) f = ([], Inl err)"
  by (simp add: then_run_def lift_def)

lemma then_run_Inl: "then_run (t, Inl err) f = (t, Inl err)"
  by (simp add: then_run_def)

lemma then_run_Inr: "then_run (t, Inr v) f = (t @ fst (f v), snd (f v))"
  by (simp add: then_run_def)

lemma progress_lines_Suc:
  "progress_lines n i (Suc k) = Call_print [P_int i, P_str ''/'', P_int n] # progress_lines n (i + 1) k"
  unfolding progress_lines_def
  by (simp add: upt_conv_Cons map_Suc_upt [symmetric] del: upt_Suc)

lemma train_epoch_loop_run:
  "train_epoch_loop l nc n state i bm dl =
     (progress_lines n i (length dl),
      Inr (train_pass_state l nc state dl, bm @ train_pass_metrics l nc state dl))"
proof (induction dl arbitrary: state i bm)
  case Nil
  show ?case by (simp add: ret_def progress_lines_def)
next
  case (Cons b dl)
  obtain images labels where b: "b = (images, labels)" by (cases b)
  show ?case
    by (simp add: b then_run_emit Cons.IH progress_lines_Suc split: prod.split)
qed

lemma eval_model_loop_run:
  "eval_model_loop l nc state bm dl = bm @ map (\<lambda>(images, labels). eval_batch l state images labels nc) dl"
  by (induction dl arbitrary: bm) (auto simp: Let_def)

lemma compute_metrics_keys: "map fst (compute_metrics l logits labels nc) = metric_keys"
  by (simp add: compute_metrics_def metric_keys_def Let_def)

lemma train_batch_keys: "map fst (snd (train_batch l state images labels nc)) = metric_keys"
  by (simp add: train_batch_def compute_metrics_keys Let_def split: prod.split)

lemma eval_batch_keys: "map fst (eval_batch l state images labels nc) = metric_keys"
  by (simp add: eval_batch_def compute_metrics_keys Let_def)

lemma train_pass_metrics_keys:
  "m \<in> set (train_pass_metrics l nc state dl) \<Longrightarrow> map fst m = metric_keys"
  by (induction l nc state dl rule: train_pass_metrics.induct) (auto simp: train_batch_keys)

lemma length_train_pass_metrics: "length (train_pass_metrics l nc state dl) = length dl"
  by (induction l nc state dl rule: train_pass_metrics.induct) auto

lemma dict_getitem_keys:
  assumes "map fst m = metric_keys" and "k \<in> set metric_keys"
  shows "dict_getitem m k = Inr (value_at k m)"
proof -
  from assms(1) obtain a b where "m = [(''loss'', a), (''accuracy'', b)]"
    by (auto simp: metric_keys_def map_eq_Cons_conv)
  with assms(2) show ?thesis
    by (auto simp: dict_getitem_def getitem_def value_at_def metric_keys_def)
qed

lemma column_keys:
  assumes "\<forall>m \<in> set bm. map fst m = metric_keys" and "k \<in> set metric_keys"
  shows "collect (map (\<lambda>metrics. dict_getitem metrics k) bm) = Inr (map (value_at k) bm)"
  using assms by (induction bm) (simp_all add: dict_getitem_keys)

lemma epoch_means_keys:
  assumes "bm \<noteq> []" and "\<forall>m \<in> set bm. map fst m = metric_keys"
  shows "epoch_means bm =
           Inr [(''loss'', np_mean (map (value_at ''loss'') bm)),
                (''accuracy'', np_mean (map (value_at ''accuracy'') bm))]"
proof -
  from assms(1) obtain first rest where bm: "bm = first # rest" by (cases bm) auto
  with assms(2) have first: "map fst first = metric_keys" by simp
  have loss: "mean_of_key bm ''loss'' = Inr (''loss'', np_mean (map (value_at ''loss'') bm))"
    using column_keys [OF assms(2), of "''loss''"] by (simp add: mean_of_key_def metric_keys_def)
  have acc: "mean_of_key bm ''accuracy'' = Inr (''accuracy'', np_mean (map (value_at ''accuracy'') bm))"
    using column_keys [OF assms(2), of "''accuracy''"] by (simp add: mean_of_key_def metric_keys_def)
  have "epoch_means bm = collect [mean_of_key bm ''loss'', mean_of_key bm ''accuracy'']"
    using first by (simp add: epoch_means_def bm metric_keys_def)
  then show ?thesis by (simp add: loss acc)
qed

lemma train_epoch_run:
  assumes "dl \<noteq> []"
  shows "train_epoch l state dl rot_train nc =
           (progress_lines (int (length dl)) 0 (length dl),
            Inr (train_pass_state l nc state dl,
                 [(''loss'', np_mean (map (value_at ''loss'') (train_pass_metrics l nc state dl))),
                  (''accuracy'', np_mean (map (value_at ''accuracy'') (train_pass_metrics l nc state dl)))]))"
proof -
  have ne: "train_pass_metrics l nc state dl \<noteq> []"
    using assms length_train_pass_metrics [of l nc state dl] by auto
  have keys: "\<forall>m \<in> set (train_pass_metrics l nc state dl). map fst m = metric_keys"
    by (simp add: train_pass_metrics_keys)
  show ?thesis
    by (simp add: train_epoch_def train_epoch_loop_run then_run_Inr device_get_def
        epoch_means_keys [OF ne keys] then_run_lift_Inr ret_def)
qed

lemma train_epoch_empty:
  "train_epoch l state [] rot_train nc = ([], Inl IndexError)"
  by (simp add: train_epoch_def ret_def then_run_Inr device_get_def epoch_means_def
      then_run_lift_Inl)

lemma eval_model_run:
  assumes "dl \<noteq> []"
  shows "eval_model l state dl nc =
           ([], Inr (np_mean (map (value_at ''loss'') (eval_pass_metrics l nc state dl)),
                     np_mean (map (value_at ''accuracy'') (eval_pass_metrics l nc state dl))))"
proof -
  have ne: "eval_pass_metrics l nc state dl \<noteq> []"
    using assms by (simp add: eval_pass_metrics_def)
  have keys: "\<forall>m \<in> set (eval_pass_metrics l nc state dl). map fst m = metric_keys"
    by (auto simp: eval_pass_metrics_def eval_batch_keys)
  have loop: "eval_model_loop l nc state [] dl = eval_pass_metrics l nc state dl"
    by (simp add: eval_model_loop_run eval_pass_metrics_def)
  show ?thesis
    by (simp add: eval_model_def loop device_get_def epoch_means_keys [OF ne keys]
        then_run_lift_Inr dict_getitem_def getitem_def ret_def)
qed

lemma eval_model_empty: "eval_model l state [] nc = ([], Inl IndexError)"
  by (simp add: eval_model_def device_get_def epoch_means_def then_run_lift_Inl)

lemma train_pass_state_foldl:
  "train_pass_state l nc state dl =
     foldl (\<lambda>s (images, labels). fst (train_batch l s images labels nc)) state dl"
  by (induction l nc state dl rule: train_pass_state.induct) auto

lemmas tiny_defs = tiny_lib_def tiny_apply_def tiny_batches_def tiny_module_def tiny_loaders_def
  tiny_env_def tiny_cli_def

lemmas step_defs = train_batch_def eval_batch_def loss_fn_def value_and_grad_def
  compute_metrics_def cross_entropy_loss_def Let_def

lemma tiny_train_epoch:
  "train_epoch tiny_lib (0, 2, 1 / 4) tiny_batches False 4 =
     ([Call_print [P_int 0, P_str ''/'', P_int 2], Call_print [P_int 1, P_str ''/'', P_int 2]],
      Inr ((2, 7 / 8, 1 / 4), [(''loss'', 13 / 16), (''accuracy'', 1 / 4)]))"
  by (simp add: train_epoch_def then_run_def emit_def ret_def lift_def device_get_def
      epoch_means_def mean_of_key_def dict_getitem_def getitem_def np_mean_def
      tiny_defs step_defs)

lemma tiny_eval_model:
  "eval_model tiny_lib (0, 2, 1 / 4) tiny_batches 4 = ([], Inr (7 / 4, 1 / 4))"
  by (simp add: eval_model_def then_run_def emit_def ret_def lift_def device_get_def
      epoch_means_def mean_of_key_def dict_getitem_def getitem_def np_mean_def
      tiny_defs step_defs)

lemma main_setup_run:
  "main_setup e c =
     (case create_train_state (lib e) (setup_rng e) (RotNet3 e)
             (arg_lr (parse c)) (arg_momentum (parse c)) of
        Inl err \<Rightarrow> (setup_calls (parse c), Inl err)
      | Inr state \<Rightarrow>
          (setup_calls (parse c) @ directory_calls (os_path_exists e ''./state_root''),
           Inr (parse c, load_data e (arg_batch_size (parse c)) 4, state)))"
  by (simp add: main_setup_def then_run_def emit_def lift_def ret_def
      Let_def setup_calls_def directory_calls_def setup_rng_def
      split: prod.split sum.split)

lemma exit_run: "then_run (exit ()) f = ([Call_exit], Inl SystemExit)"
  by (simp add: exit_def then_run_def emit_def raise_error_def)

lemma main_run:
  "main e c =
     (case outcome (main_setup e c) of
        Inl err \<Rightarrow> (calls (main_setup e c), Inl err)
      | Inr r \<Rightarrow> (calls (main_setup e c) @ [Call_exit], Inl SystemExit))"
  by (simp add: main_def main_setup_run outcome_def calls_def then_run_Inl then_run_Inr exit_run
      split: sum.split)

lemma setup_calls_before_exit: "x \<in> set (setup_calls a) \<Longrightarrow> \<not> after_exit x"
  by (auto simp: setup_calls_def)

lemma directory_calls_before_exit: "x \<in> set (directory_calls b) \<Longrightarrow> \<not> after_exit x"
  by (auto simp: directory_calls_def split: if_splits)

lemma main_setup_before_exit: "x \<in> set (calls (main_setup e c)) \<Longrightarrow> \<not> after_exit x"
  by (auto simp: main_setup_run calls_def split: sum.splits
      dest: setup_calls_before_exit directory_calls_before_exit)

lemma tiny_main:
  "main tiny_env tiny_cli =
     ([Call_parse, Call_PRNGKey 0, Call_split, Call_print [P_str ''Random Gen Complete''],
       Call_RotNet3, Call_print [P_str ''Network Defined''], Call_load_data 128 4,
       Call_print [P_str ''Data Loaded!''], Call_create_train_state (1 / 4) (9 / 10),
       Call_print [P_str ''Train State Created''], Call_exists ''./state_root'',
       Call_makedirs ''./state_root'', Call_print [P_str ''creating root directory for state''],
       Call_exit],
      Inl SystemExit)"
  by (simp add: main_run main_setup_run outcome_def calls_def setup_calls_def directory_calls_def
      create_train_state_def getitem_def parse_def or_default_def tiny_defs)

lemma compute_metrics_cong:
  "jax_nn_one_hot l' = jax_nn_one_hot l \<Longrightarrow>
   optax_softmax_cross_entropy l' = optax_softmax_cross_entropy l \<Longrightarrow>
   jnp_mean l' = jnp_mean l \<Longrightarrow> jnp_argmax l' = jnp_argmax l \<Longrightarrow> jnp_equal l' = jnp_equal l \<Longrightarrow>
   compute_metrics l' = compute_metrics l"
  by (simp add: compute_metrics_def cross_entropy_loss_def fun_eq_iff)

lemma eval_batch_inference:
  assumes "\<forall>s v x. fst (f s v x Mutable_False False) = fst (state_apply_fn l s v x Mutable_False False)"
  shows "eval_batch (l\<lparr>state_apply_fn := f, state_apply_gradients := g, jax_grad := d\<rparr>)
           state images labels num_classes
         = eval_batch l state images labels num_classes"
proof -
  have "compute_metrics (l\<lparr>state_apply_fn := f, state_apply_gradients := g, jax_grad := d\<rparr>)
      = compute_metrics l"
    by (rule compute_metrics_cong) simp_all
  with assms show ?thesis by (simp add: eval_batch_def)
qed

lemma eval_pass_metrics_inference:
  assumes "\<forall>s v x. fst (f s v x Mutable_False False) = fst (state_apply_fn l s v x Mutable_False False)"
  shows "eval_model_loop (l\<lparr>state_apply_fn := f, state_apply_gradients := g, jax_grad := d\<rparr>)
           num_classes state bm dataloader
         = eval_model_loop l num_classes state bm dataloader"
  by (induction dataloader arbitrary: bm) (auto simp: eval_batch_inference [where f = f and l = l, OF assms] Let_def)

lemma progress_lines_print: "filter (\<lambda>c. \<not> is_print c) (progress_lines n i k) = []"
  by (simp add: progress_lines_def)

lemma epoch_body_run:
  assumes "loaders_nonempty loaders"
  shows "filter (\<lambda>c. \<not> is_print c) (calls (epoch_body e loaders state epoch))
           = epoch_skeleton e loaders state epoch"
    and "outcome (epoch_body e loaders state epoch)
           = Inr (train_pass_state (lib e) 4 state (rot_train_loader loaders))"
  using assms
  by (simp_all add: loaders_nonempty_def epoch_body_def epoch_skeleton_def calls_def outcome_def
      train_epoch_run eval_model_run then_run_def emit_def lift_def ret_def
      dict_getitem_def getitem_def progress_lines_print Let_def)

lemma calls_then_run:
  "calls (then_run m f) =
     calls m @ (case outcome m of Inl err \<Rightarrow> [] | Inr v \<Rightarrow> calls (f v))"
  by (simp add: then_run_def calls_def outcome_def split: sum.split)

lemma outcome_then_run:
  "outcome (then_run m f) =
     (case outcome m of Inl err \<Rightarrow> Inl err | Inr v \<Rightarrow> outcome (f v))"
  by (simp add: then_run_def outcome_def split: sum.split)

lemma map_upt_Suc_shift: "map f [0..<Suc m] = f 0 # map (\<lambda>k. f (Suc k)) [0..<m]"
  by (simp add: upt_conv_Cons map_Suc_upt [symmetric] del: upt_Suc)

lemma training_loop_run:
  assumes "loaders_nonempty loaders"
  shows "filter (\<lambda>c. \<not> is_print c) (calls (training_loop e loaders state (map int [i..<i + m])))
           = concat (map (\<lambda>k. epoch_skeleton e loaders (state_after_epochs e loaders state k)
                                 (int (i + k))) [0..<m])
         \<and> outcome (training_loop e loaders state (map int [i..<i + m]))
           = Inr (state_after_epochs e loaders state m)"
proof (induction m arbitrary: state i)
  case 0
  show ?case by (simp add: calls_def outcome_def ret_def)
next
  case (Suc m)
  have range: "map int [i..<i + Suc m] = int i # map int [Suc i..<Suc i + m]"
    by (simp add: upt_conv_Cons del: upt_Suc)
  show ?case
    unfolding range training_loop.simps map_upt_Suc_shift
    using Suc.IH [of "train_pass_state (lib e) 4 state (rot_train_loader loaders)" "Suc i"]
    by (simp add: calls_then_run outcome_then_run epoch_body_run [OF assms])
qed

lemma training_loop_range:
  assumes "loaders_nonempty loaders"
  shows "filter (\<lambda>c. \<not> is_print c) (calls (training_loop e loaders state (range_int n)))
           = concat (map (\<lambda>k. epoch_skeleton e loaders (state_after_epochs e loaders state k)
                                 (int k)) [0..<nat n])"
    and "outcome (training_loop e loaders state (range_int n))
           = Inr (state_after_epochs e loaders state (nat n))"
  using training_loop_run [OF assms, of e state 0 "nat n"] by (simp_all add: range_int_def)

lemma phases_append: "phases (xs @ ys) = phases xs @ phases ys"
  by (simp add: phases_def)

lemma phases_without_prints: "phases (filter (\<lambda>c. \<not> is_print c) cs) = phases cs"
proof (induction cs)
  case Nil
  show ?case by simp
next
  case (Cons c cs)
  then show ?case by (cases c) (simp_all add: phases_def)
qed

lemma phases_concat: "phases (concat xss) = concat (map phases xss)"
  by (induction xss) (simp_all add: phases_append, simp add: phases_def)

lemma phases_epoch_skeleton:
  "phases (epoch_skeleton e loaders state epoch) =
     [Train, Checkpoint, Evaluate] @ (if epoch mod 10 = 0 then [Evaluate] else [])"
  by (simp add: epoch_skeleton_def phases_def Let_def)

lemma phases_training_loop:
  assumes "loaders_nonempty loaders"
  shows "phases (calls (training_loop e loaders state (range_int n))) =
           concat (map (\<lambda>k. [Train, Checkpoint, Evaluate]
                               @ (if int k mod 10 = 0 then [Evaluate] else [])) [0..<nat n])"
proof -
  have "phases (calls (training_loop e loaders state (range_int n))) =
      phases (filter (\<lambda>c. \<not> is_print c) (calls (training_loop e loaders state (range_int n))))"
    by (simp add: phases_without_prints)
  then show ?thesis
    by (simp add: training_loop_range(1) [OF assms] phases_concat phases_epoch_skeleton comp_def)
qed

lemma phases_main: "phases (calls (main e c)) = [Parse_args, Build_model, Load_data]"
  by (simp add: main_run main_setup_run calls_def outcome_def setup_calls_def directory_calls_def
      phases_def split: sum.split)

lemma concat_singletons: "concat (map (\<lambda>k. [f k]) ks) = map f ks"
  by (induction ks) simp_all

lemma tiny_loaders_nonempty: "loaders_nonempty tiny_loaders"
  by (simp add: loaders_nonempty_def tiny_loaders_def tiny_batches_def)

lemma argmax_row_is_first_maximum:
  "z \<noteq> [] \<Longrightarrow> argmax_row z < length z \<and> (\<forall>x \<in> set z. x \<le> z ! argmax_row z)
     \<and> (\<forall>i < argmax_row z. z ! i < z ! argmax_row z)"
proof (induction z)
  case Nil
  then show ?case by simp
next
  case (Cons x xs)
  show ?case
  proof (cases "\<forall>y \<in> set xs. y \<le> x")
    case True
    then show ?thesis by simp
  next
    case False
    then have ne: "xs \<noteq> []" by auto
    note ih = Cons.IH [OF ne]
    from False obtain y where y: "y \<in> set xs" "x < y" by (auto simp: not_le)
    with ih have big: "x < xs ! argmax_row xs" by (meson less_le_trans)
    have "\<forall>i < Suc (argmax_row xs). (x # xs) ! i < xs ! argmax_row xs"
    proof (intro allI impI)
      fix i assume "i < Suc (argmax_row xs)"
      then show "(x # xs) ! i < xs ! argmax_row xs"
        using big ih by (cases i) auto
    qed
    with False ih big show ?thesis by (auto intro: less_imp_le)
  qed
qed

lemma sum_one_hot:
  assumes "0 \<le> y" and "y < n" and "length v = nat n"
  shows "sum_list (map2 (\<lambda>tj lj. tj * lj) (one_hot_row n y) v) = v ! nat y"
proof -
  have "map2 (\<lambda>tj lj. tj * lj) (one_hot_row n y) v
      = map (\<lambda>j. if j = nat y then v ! j else 0) [0..<nat n]"
    using assms by (intro nth_equalityI) (auto simp: one_hot_row_def)
  then have "sum_list (map2 (\<lambda>tj lj. tj * lj) (one_hot_row n y) v)
      = (\<Sum>j = 0..<nat n. if j = nat y then v ! j else 0)"
    by (simp add: interv_sum_list_conv_sum_set_nat)
  also have "\<dots> = v ! nat y"
    using assms by simp
  finally show ?thesis .
qed

lemma cross_entropy_one_hot:
  assumes "0 \<le> y" and "y < n" and "length z = nat n"
  shows "softmax_cross_entropy_row z (one_hot_row n y) = ln (sum_list (map exp z)) - z ! nat y"
proof -
  have "length (log_softmax_row z) = nat n"
    using assms by (simp add: log_softmax_row_def)
  from sum_one_hot [OF assms(1,2) this]
  have "softmax_cross_entropy_row z (one_hot_row n y) = - (log_softmax_row z ! nat y)"
    by (simp add: softmax_cross_entropy_row_def)
  also have "\<dots> = ln (sum_list (map exp z)) - z ! nat y"
    using assms by (simp add: log_softmax_row_def)
  finally show ?thesis .
qed

lemma sum_indicators:
  "length xs = length ys \<Longrightarrow>
   sum_list (map2 (\<lambda>x y. if x = y then 1 else 0) xs ys)
     = real (length (filter (\<lambda>(x, y). x = y) (zip xs ys)))"
  by (induction xs ys rule: list_induct2) auto

lemma filter_zip_map1:
  "filter (\<lambda>(x, y). x = y) (zip (map f zs) ys)
     = map (\<lambda>(z, y). (f z, y)) (filter (\<lambda>(z, y). f z = y) (zip zs ys))"
proof (induction zs arbitrary: ys)
  case Nil
  show ?case by simp
next
  case (Cons z zs)
  show ?case by (cases ys) (simp_all add: Cons.IH)
qed

lemma exact_lib_as_documented: "library_as_documented exact_lib rows_of vec_of ints_of"
  by (simp add: library_as_documented_def exact_lib_def)

lemma train_batch_explicit:
  "train_batch l state images labels nc =
     (gradient_step l nc state (images, labels),
      [(''loss'', batch_loss l (training_logits l state (state_params l state) images) labels nc),
       (''accuracy'', batch_accuracy l (training_logits l state (state_params l state) images) labels)])"
  by (simp add: train_batch_def value_and_grad_def loss_fn_def compute_metrics_def
      cross_entropy_loss_def gradient_step_def batch_loss_def batch_accuracy_def
      training_logits_def Let_def case_prod_beta)

lemma eval_batch_explicit:
  "eval_batch l state images labels nc =
     [(''loss'', batch_loss l (inference_logits l state images) labels nc),
      (''accuracy'', batch_accuracy l (inference_logits l state images) labels)]"
  by (simp add: eval_batch_def compute_metrics_def cross_entropy_loss_def batch_loss_def
      batch_accuracy_def inference_logits_def Let_def)

lemma train_pass_state_trained: "train_pass_state l nc state dl = trained l nc state dl"
  unfolding trained_def
  by (induction l nc state dl rule: train_pass_state.induct) (simp_all add: train_batch_explicit)

lemma train_pass_metrics_losses:
  "map (value_at ''loss'') (train_pass_metrics l nc state dl) = pass_losses l nc state dl"
  by (induction l nc state dl rule: train_pass_metrics.induct)
    (simp_all add: train_batch_explicit value_at_def)

lemma train_pass_metrics_accuracies:
  "map (value_at ''accuracy'') (train_pass_metrics l nc state dl) = pass_accuracies l nc state dl"
  by (induction l nc state dl rule: train_pass_metrics.induct)
    (simp_all add: train_batch_explicit value_at_def)

lemma train_epoch_explicit:
  assumes "dl \<noteq> []"
  shows "train_epoch l state dl rot_train nc =
           (map (\<lambda>i. Call_print [P_int (int i), P_str ''/'', P_int (int (length dl))]) [0..<length dl],
            Inr (trained l nc state dl,
                 [(''loss'', mean_over (pass_losses l nc state dl)),
                  (''accuracy'', mean_over (pass_accuracies l nc state dl))]))"
  using train_epoch_run [OF assms, of l state rot_train nc]
  by (simp add: progress_lines_def np_mean_def mean_over_def train_pass_state_trained
      train_pass_metrics_losses train_pass_metrics_accuracies)

lemma eval_model_explicit:
  assumes "dl \<noteq> []"
  shows "eval_model l state dl nc =
           ([], Inr (inference_loss l nc state dl, inference_accuracy l state dl))"
  using eval_model_run [OF assms, of l state nc]
  by (simp add: np_mean_def mean_over_def inference_loss_def inference_accuracy_def
      eval_pass_metrics_def eval_batch_explicit value_at_def comp_def split_def)

lemma epoch_body_explicit:
  assumes "loaders_nonempty loaders"
  shows "epoch_body e loaders state epoch =
           (epoch_calls e loaders state epoch,
            Inr (trained (lib e) 4 state (rot_train_loader loaders)))"
  using assms
  by (simp add: loaders_nonempty_def epoch_body_def epoch_calls_def
      train_epoch_explicit eval_model_explicit then_run_def emit_def lift_def ret_def
      dict_getitem_def getitem_def Let_def)

lemma training_loop_explicit:
  assumes "loaders_nonempty loaders"
  shows "training_loop e loaders state (map int [i..<i + m]) =
           (concat (map (\<lambda>k. epoch_calls e loaders (epochs_trained e loaders state k) (int (i + k)))
                      [0..<m]),
            Inr (epochs_trained e loaders state m))"
proof (induction m arbitrary: state i)
  case 0
  show ?case by (simp add: ret_def)
next
  case (Suc m)
  have range: "map int [i..<i + Suc m] = int i # map int [Suc i..<Suc i + m]"
    by (simp add: upt_conv_Cons del: upt_Suc)
  show ?case
    unfolding range training_loop.simps map_upt_Suc_shift
    using Suc.IH [of "trained (lib e) 4 state (rot_train_loader loaders)" "Suc i"]
    by (simp add: epoch_body_explicit [OF assms] then_run_Inr)
qed

lemma training_loop_range_explicit:
  assumes "loaders_nonempty loaders"
  shows "training_loop e loaders state (range_int n) =
           (concat (map (\<lambda>k. epoch_calls e loaders (epochs_trained e loaders state k) (int k))
                      [0..<nat n]),
            Inr (epochs_trained e loaders state (nat n)))"
  using training_loop_explicit [OF assms, of e state 0 "nat n"] by (simp add: range_int_def)

lemma epochs_trained_Suc:
  "epochs_trained e loaders state (Suc k) =
     trained (lib e) 4 (epochs_trained e loaders state k) (rot_train_loader loaders)"
  by (induction k arbitrary: state) simp_all

lemma saves_epoch_calls:
  "filter is_save_checkpoint (epoch_calls e loaders state epoch) =
     [Call_save_checkpoint ''./state_root''
        (trained (lib e) 4 state (rot_train_loader loaders)) epoch]"
  by (simp add: epoch_calls_def Let_def filter_map comp_def)

lemma validation_reports_epoch_calls:
  "filter is_validation_report (epoch_calls e loaders state epoch) =
     [Call_eval_model (trained (lib e) 4 state (rot_train_loader loaders)) Rot_validation_loader 4,
      Call_print
        [P_str ''validation loss: '',
         P_float ''.4f'' (inference_loss (lib e) 4
            (trained (lib e) 4 state (rot_train_loader loaders)) (rot_validation_loader loaders))]]"
  by (simp add: epoch_calls_def Let_def filter_map comp_def)

lemma main_saves_nothing: "filter is_save_checkpoint (calls (main e c)) = []"
  by (simp add: main_run main_setup_run calls_def outcome_def setup_calls_def directory_calls_def
      split: sum.split)

lemma main_validates_nothing: "filter is_validation_report (calls (main e c)) = []"
  by (simp add: main_run main_setup_run calls_def outcome_def setup_calls_def directory_calls_def
      split: sum.split)

lemmas meaning_defs = trained_def gradient_step_def batch_loss_def batch_accuracy_def
  training_logits_def inference_logits_def inference_loss_def inference_accuracy_def mean_over_def

lemma tiny_trained_1:
  "trained tiny_lib 4 (0, 2, 1 / 4) tiny_batches = (2, 7 / 8, 1 / 4)"
  by (simp add: meaning_defs tiny_defs)

lemma tiny_trained_2:
  "trained tiny_lib 4 (2, 7 / 8, 1 / 4) tiny_batches = (4, 65 / 64, 1 / 4)"
  by (simp add: meaning_defs tiny_defs)

lemma tiny_epoch_calls_0:
  "epoch_calls tiny_env tiny_loaders (0, 2, 1 / 4) 0 =
     [Call_train_epoch (0, 2, 1 / 4) Rot_train_loader True 4,
      Call_print [P_int 0, P_str ''/'', P_int 2],
      Call_print [P_int 1, P_str ''/'', P_int 2],
      Call_save_checkpoint ''./state_root'' (2, 7 / 8, 1 / 4) 0,
      Call_print
        [P_str ''train epoch: '', P_int 0, P_str '',             loss: '',
         P_float ''.4f'' (13 / 16), P_str '',             accuracy:'',
         P_float ''.2f'' 25, P_str ''%''],
      Call_eval_model (2, 7 / 8, 1 / 4) Rot_validation_loader 4,
      Call_print [P_str ''validation loss: '', P_float ''.4f'' (81 / 64)],
      Call_eval_model (2, 7 / 8, 1 / 4) Rot_test_loader 4,
      Call_print [P_str ''test_accuracy: '', P_float ''.2f'' 1]]"
proof -
  have env: "lib tiny_env = tiny_lib" "rot_train_loader tiny_loaders = tiny_batches"
    "rot_validation_loader tiny_loaders = [([1], [2])]" "rot_test_loader tiny_loaders = [([2], [2])]"
    by (simp_all add: tiny_env_def tiny_loaders_def)
  have losses: "pass_losses tiny_lib 4 (0, 2, 1 / 4) tiny_batches = [1, 5 / 8]"
    and accuracies: "pass_accuracies tiny_lib 4 (0, 2, 1 / 4) tiny_batches = [0, 1 / 2]"
    by (simp_all add: meaning_defs tiny_defs)
  have validation: "inference_loss tiny_lib 4 (2, 7 / 8, 1 / 4) [([1], [2])] = 81 / 64"
    and test: "inference_accuracy tiny_lib (2, 7 / 8, 1 / 4) [([2], [2])] = 1"
    by (simp_all add: meaning_defs tiny_defs)
  have lines: "[0..<length tiny_batches] = [0, 1]"
    by (simp add: tiny_batches_def upt_conv_Cons del: upt_Suc)
  show ?thesis
    unfolding epoch_calls_def env Let_def tiny_trained_1 losses accuracies validation test lines
    by (simp add: mean_over_def tiny_batches_def)
qed

lemma tiny_epoch_calls_1:
  "epoch_calls tiny_env tiny_loaders (2, 7 / 8, 1 / 4) 1 =
     [Call_train_epoch (2, 7 / 8, 1 / 4) Rot_train_loader True 4,
      Call_print [P_int 0, P_str ''/'', P_int 2],
      Call_print [P_int 1, P_str ''/'', P_int 2],
      Call_save_checkpoint ''./state_root'' (4, 65 / 64, 1 / 4) 1,
      Call_print
        [P_str ''train epoch: '', P_int 1, P_str '',             loss: '',
         P_float ''.4f'' (13 / 1024), P_str '',             accuracy:'',
         P_float ''.2f'' 100, P_str ''%''],
      Call_eval_model (4, 65 / 64, 1 / 4) Rot_validation_loader 4,
      Call_print [P_str ''validation loss: '', P_float ''.4f'' (3969 / 4096)]]"
proof -
  have env: "lib tiny_env = tiny_lib" "rot_train_loader tiny_loaders = tiny_batches"
    "rot_validation_loader tiny_loaders = [([1], [2])]" "rot_test_loader tiny_loaders = [([2], [2])]"
    by (simp_all add: tiny_env_def tiny_loaders_def)
  have losses: "pass_losses tiny_lib 4 (2, 7 / 8, 1 / 4) tiny_batches = [1 / 64, 5 / 512]"
    and accuracies: "pass_accuracies tiny_lib 4 (2, 7 / 8, 1 / 4) tiny_batches = [1, 1]"
    by (simp_all add: meaning_defs tiny_defs)
  have validation: "inference_loss tiny_lib 4 (4, 65 / 64, 1 / 4) [([1], [2])] = 3969 / 4096"
    by (simp add: meaning_defs tiny_defs)
  have lines: "[0..<length tiny_batches] = [0, 1]"
    by (simp add: tiny_batches_def upt_conv_Cons del: upt_Suc)
  show ?thesis
    unfolding epoch_calls_def env Let_def tiny_trained_2 losses accuracies validation lines
    by (simp add: mean_over_def tiny_batches_def)
qed

lemma tiny_epochs_trained:
  "epochs_trained tiny_env tiny_loaders (0, 2, 1 / 4) 0 = (0, 2, 1 / 4)"
  "epochs_trained tiny_env tiny_loaders (0, 2, 1 / 4) (Suc 0) = (2, 7 / 8, 1 / 4)"
  "epochs_trained tiny_env tiny_loaders (0, 2, 1 / 4) (Suc (Suc 0)) = (4, 65 / 64, 1 / 4)"
proof -
  have env: "lib tiny_env = tiny_lib" "rot_train_loader tiny_loaders = tiny_batches"
    by (simp_all add: tiny_env_def tiny_loaders_def)
  show "epochs_trained tiny_env tiny_loaders (0, 2, 1 / 4) 0 = (0, 2, 1 / 4)" by simp
  show "epochs_trained tiny_env tiny_loaders (0, 2, 1 / 4) (Suc 0) = (2, 7 / 8, 1 / 4)"
    by (simp add: env tiny_trained_1)
  show "epochs_trained tiny_env tiny_loaders (0, 2, 1 / 4) (Suc (Suc 0)) = (4, 65 / 64, 1 / 4)"
    by (simp add: env tiny_trained_1 tiny_trained_2)
qed

lemma tiny_empty_train_loop:
  "training_loop tiny_env (tiny_loaders\<lparr>rot_train_loader := []\<rparr>) (0, 2, 1 / 4) (range_int 2) =
     ([Call_train_epoch (0, 2, 1 / 4) Rot_train_loader True 4], Inl IndexError)"
  by (simp add: range_int_def numeral_2_eq_2 upt_conv_Cons epoch_body_def train_epoch_empty
      then_run_def emit_def del: upt_Suc)

section \<open>The claims\<close>

text \<open>
  Claim C1. Whatever the environment and the command line, no call of \<open>main\<close> belongs to
  the statements after \<open>exit()\<close> (\<open>train_epoch\<close>, \<open>save_checkpoint\<close>, \<open>eval_model\<close>, the
  progress bar, a print of a number); \<open>main\<close> never returns normally; when the setup phase
  completes, \<open>main\<close> ends with \<open>SystemExit\<close> and its last call is \<open>exit\<close>; when the setup
  phase raises, \<open>main\<close> ends there with the same error.
\<close>

theorem main_exits_before_training_loop:
  "(\<forall>x \<in> set (calls (main e c)). \<not> after_exit x)
   \<and> outcome (main e c) \<noteq> Inr ()
   \<and> ((\<exists>r. outcome (main_setup e c) = Inr r)
        \<longrightarrow> outcome (main e c) = Inl SystemExit
            \<and> calls (main e c) = calls (main_setup e c) @ [Call_exit])
   \<and> (\<forall>err. outcome (main_setup e c) = Inl err \<longrightarrow> main e c = (calls (main_setup e c), Inl err))"
proof -
  have "\<not> after_exit x" if "x \<in> set (calls (main e c))" for x
    using that main_setup_before_exit [of x e c]
    by (auto simp: main_run calls_def outcome_def split: sum.splits)
  then show ?thesis
    by (auto simp: main_run calls_def outcome_def split: sum.splits)
qed

theorem main_exits_before_training_loop_witness:
  "(\<exists>r. outcome (main_setup tiny_env tiny_cli) = Inr r)
   \<and> outcome (main tiny_env tiny_cli) = Inl SystemExit
   \<and> last (calls (main tiny_env tiny_cli)) = Call_exit
   \<and> \<not> list_ex after_exit (calls (main tiny_env tiny_cli))
   \<and> outcome (main_setup (tiny_env\<lparr>RotNet3 := tiny_module\<lparr>module_init :=
          \<lambda>key x train. [''params'' \<mapsto> 2]\<rparr>\<rparr>) tiny_cli) = Inl (KeyError ''batch_stats'')
   \<and> outcome (main (tiny_env\<lparr>RotNet3 := tiny_module\<lparr>module_init :=
          \<lambda>key x train. [''params'' \<mapsto> 2]\<rparr>\<rparr>) tiny_cli) = Inl (KeyError ''batch_stats'')
   \<and> \<not> list_ex after_exit (calls (main (tiny_env\<lparr>RotNet3 := tiny_module\<lparr>module_init :=
          \<lambda>key x train. [''params'' \<mapsto> 2]\<rparr>\<rparr>) tiny_cli))"
proof -
  let ?bare = "tiny_env\<lparr>RotNet3 := tiny_module\<lparr>module_init := \<lambda>key x train. [''params'' \<mapsto> 2]\<rparr>\<rparr>"
  have ok: "\<exists>r. outcome (main_setup tiny_env tiny_cli) = Inr r"
    by (simp add: main_setup_run outcome_def create_train_state_def getitem_def tiny_defs)
  have raised: "outcome (main_setup ?bare tiny_cli) = Inl (KeyError ''batch_stats'')"
    by (simp add: main_setup_run outcome_def create_train_state_def getitem_def)
  note m = main_exits_before_training_loop [of tiny_env tiny_cli]
  note b = main_exits_before_training_loop [of ?bare tiny_cli]
  from m ok have "outcome (main tiny_env tiny_cli) = Inl SystemExit"
    and "calls (main tiny_env tiny_cli) = calls (main_setup tiny_env tiny_cli) @ [Call_exit]"
    by blast+
  moreover from m have "\<not> list_ex after_exit (calls (main tiny_env tiny_cli))"
    by (simp add: list_ex_iff)
  moreover from b raised have "outcome (main ?bare tiny_cli) = Inl (KeyError ''batch_stats'')"
    by (simp add: outcome_def)
  moreover from b have "\<not> list_ex after_exit (calls (main ?bare tiny_cli))"
    by (simp add: list_ex_iff)
  ultimately show ?thesis using ok raised by simp
qed

text \<open>
  Claim C2. For a module whose \<open>init\<close> returns the collections \<open>params\<close> and
  \<open>batch_stats\<close>, \<open>create_train_state\<close> returns the train state the library creates from
  the module's \<open>apply\<close>, the parameters and the optimizer: \<open>batch_stats\<close> is read and not
  passed on, so the result is the same for every value of it.
\<close>

theorem create_train_state_drops_batch_stats:
  "create_train_state l rng
      (model\<lparr>module_init := \<lambda>key x train. [''params'' \<mapsto> params, ''batch_stats'' \<mapsto> batch_stats]\<rparr>)
      learning_rate momentum
    = Inr (TrainState_create l (module_apply model) params (optax_sgd l learning_rate momentum))"
  by (simp add: create_train_state_def getitem_def)

theorem create_train_state_drops_batch_stats_witness:
  "create_train_state tiny_lib [0]
      (tiny_module\<lparr>module_init := \<lambda>key x train. [''params'' \<mapsto> 2, ''batch_stats'' \<mapsto> 0]\<rparr>)
      (1 / 4) (9 / 10) = Inr (0, 2, 1 / 4)
   \<and> create_train_state tiny_lib [0]
      (tiny_module\<lparr>module_init := \<lambda>key x train. [''params'' \<mapsto> 2, ''batch_stats'' \<mapsto> 7]\<rparr>)
      (1 / 4) (9 / 10) = Inr (0, 2, 1 / 4)"
  using create_train_state_drops_batch_stats [where l = tiny_lib and rng = "[0]" and model = tiny_module
      and params = 2 and batch_stats = 0 and learning_rate = "1 / 4" and momentum = "9 / 10"]
    create_train_state_drops_batch_stats [where l = tiny_lib and rng = "[0]" and model = tiny_module
      and params = 2 and batch_stats = 7 and learning_rate = "1 / 4" and momentum = "9 / 10"]
  by (simp add: tiny_lib_def)

text \<open>
  Claim C3. For a non-empty dataloader, \<open>train_epoch\<close> and \<open>eval_model\<close> return, under
  each of the keys of the per-batch dictionaries (\<open>loss\<close> and \<open>accuracy\<close>, which every
  per-batch dictionary has), the sum of that key's per-batch values divided by the number of
  batches of the pass.
\<close>

theorem epoch_metrics_are_batch_means:
  assumes "dataloader \<noteq> []"
  shows "(\<exists>state'. outcome (train_epoch l state dataloader rot_train num_classes) =
            Inr (state',
              [(''loss'',
                sum_list (map (value_at ''loss'') (train_pass_metrics l num_classes state dataloader))
                  / real (length dataloader)),
               (''accuracy'',
                sum_list (map (value_at ''accuracy'') (train_pass_metrics l num_classes state dataloader))
                  / real (length dataloader))]))
       \<and> outcome (eval_model l state dataloader num_classes) =
            Inr (sum_list (map (value_at ''loss'') (eval_pass_metrics l num_classes state dataloader))
                   / real (length dataloader),
                 sum_list (map (value_at ''accuracy'') (eval_pass_metrics l num_classes state dataloader))
                   / real (length dataloader))
       \<and> length (train_pass_metrics l num_classes state dataloader) = length dataloader
       \<and> length (eval_pass_metrics l num_classes state dataloader) = length dataloader
       \<and> (\<forall>m \<in> set (train_pass_metrics l num_classes state dataloader)
                \<union> set (eval_pass_metrics l num_classes state dataloader).
             map fst m = [''loss'', ''accuracy''])"
proof -
  have "length (eval_pass_metrics l num_classes state dataloader) = length dataloader"
    by (simp add: eval_pass_metrics_def)
  moreover have "\<forall>m \<in> set (eval_pass_metrics l num_classes state dataloader).
      map fst m = [''loss'', ''accuracy'']"
    using eval_batch_keys by (auto simp: eval_pass_metrics_def metric_keys_def)
  moreover have "\<forall>m \<in> set (train_pass_metrics l num_classes state dataloader).
      map fst m = [''loss'', ''accuracy'']"
    using train_pass_metrics_keys by (auto simp: metric_keys_def)
  ultimately show ?thesis
    using assms
    by (simp add: outcome_def train_epoch_run eval_model_run np_mean_def
        length_train_pass_metrics ball_Un)
qed

theorem epoch_metrics_are_batch_means_witness:
  "tiny_batches \<noteq> []
   \<and> outcome (train_epoch tiny_lib (0, 2, 1 / 4) tiny_batches False 4) =
       Inr ((2, 7 / 8, 1 / 4), [(''loss'', 13 / 16), (''accuracy'', 1 / 4)])
   \<and> outcome (eval_model tiny_lib (0, 2, 1 / 4) tiny_batches 4) = Inr (7 / 4, 1 / 4)
   \<and> map (value_at ''loss'') (train_pass_metrics tiny_lib 4 (0, 2, 1 / 4) tiny_batches) = [1, 5 / 8]
   \<and> map (value_at ''loss'') (eval_pass_metrics tiny_lib 4 (0, 2, 1 / 4) tiny_batches) = [1, 5 / 2]"
proof -
  have ne: "tiny_batches \<noteq> []" by (simp add: tiny_batches_def)
  have train: "map (value_at ''loss'') (train_pass_metrics tiny_lib 4 (0, 2, 1 / 4) tiny_batches) = [1, 5 / 8]"
    by (simp add: value_at_def tiny_defs step_defs)
  have eval: "map (value_at ''loss'') (eval_pass_metrics tiny_lib 4 (0, 2, 1 / 4) tiny_batches) = [1, 5 / 2]"
    by (simp add: value_at_def eval_pass_metrics_def tiny_defs step_defs)
  show ?thesis
    using ne train eval epoch_metrics_are_batch_means [OF ne, of tiny_lib "(0, 2, 1 / 4)" False 4]
    by (simp add: outcome_def tiny_train_epoch tiny_eval_model)
qed

text \<open>
  Claim C4, as stated: parse, build the model, load the data, then in each epoch train,
  evaluate, save the checkpoint. With \<open>--epochs 2\<close> the phases of \<open>main\<close> are not these, and
  neither are the phases of the epoch loop run on its own for two epochs.
\<close>

theorem main_order_as_claimed_counterexample:
  "phases (calls (main tiny_env tiny_cli)) \<noteq> claimed_phases 2
   \<and> phases (calls (training_loop tiny_env tiny_loaders (0, 2, 1 / 4) (range_int 2)))
       \<noteq> concat (replicate 2 [Train, Evaluate, Checkpoint])"
  by (simp add: phases_main phases_training_loop [OF tiny_loaders_nonempty] claimed_phases_def
      numeral_2_eq_2 upt_conv_Cons del: upt_Suc)

text \<open>
  Claim C4, as amended. When \<open>create_train_state\<close> returns, the calls of \<open>main\<close> are, in
  order, those of the setup phase (parse, the random key, \<open>RotNet3()\<close>, \<open>load_data\<close>,
  \<open>create_train_state\<close>, with their messages), the lookup and creation of the checkpoint
  directory, and \<open>exit\<close>, and \<open>main\<close> ends with \<open>SystemExit\<close>; when it raises, \<open>main\<close> ends
  with that error after the setup calls. Either way \<open>main\<close> goes through parse, build, load
  and no training, evaluation or checkpoint. The epoch loop written after \<open>exit()\<close>, run over
  \<open>range(n)\<close> on non-empty rotation loaders, makes in iteration \<open>k\<close> exactly the calls of
  \<open>epoch_calls\<close> on the state after \<open>k\<close> epochs: the training pass and its progress lines,
  then the checkpoint save with step \<open>k\<close>, then the print of the training metrics, then the
  evaluation on the validation loader and the print of its loss, then, when \<open>k\<close> is a
  multiple of 10, the evaluation on the test loader and the print of its accuracy.
\<close>

theorem main_order:
  "(case create_train_state (lib e) (setup_rng e) (RotNet3 e)
           (arg_lr (parse c)) (arg_momentum (parse c)) of
      Inl err \<Rightarrow> main e c = (setup_calls (parse c), Inl err)
    | Inr state \<Rightarrow>
        main e c =
          (setup_calls (parse c) @ directory_calls (os_path_exists e ''./state_root'')
             @ [Call_exit],
           Inl SystemExit))
   \<and> phases (calls (main e c)) = [Parse_args, Build_model, Load_data]
   \<and> (loaders_nonempty loaders \<longrightarrow>
        training_loop e loaders state (range_int n) =
          (concat (map (\<lambda>k. epoch_calls e loaders (epochs_trained e loaders state k) (int k))
                     [0..<nat n]),
           Inr (epochs_trained e loaders state (nat n)))
        \<and> phases (calls (training_loop e loaders state (range_int n))) =
            concat (map (\<lambda>k. [Train, Checkpoint, Evaluate]
                                @ (if int k mod 10 = 0 then [Evaluate] else [])) [0..<nat n]))"
proof -
  have "case create_train_state (lib e) (setup_rng e) (RotNet3 e)
           (arg_lr (parse c)) (arg_momentum (parse c)) of
      Inl err \<Rightarrow> main e c = (setup_calls (parse c), Inl err)
    | Inr state \<Rightarrow>
        main e c =
          (setup_calls (parse c) @ directory_calls (os_path_exists e ''./state_root'')
             @ [Call_exit],
           Inl SystemExit)"
    by (simp add: main_run main_setup_run outcome_def calls_def split: sum.split)
  moreover have "phases (calls (main e c)) = [Parse_args, Build_model, Load_data]"
    by (rule phases_main)
  moreover have "training_loop e loaders state (range_int n) =
          (concat (map (\<lambda>k. epoch_calls e loaders (epochs_trained e loaders state k) (int k))
                     [0..<nat n]),
           Inr (epochs_trained e loaders state (nat n)))" if "loaders_nonempty loaders"
    using that by (rule training_loop_range_explicit)
  moreover have "phases (calls (training_loop e loaders state (range_int n))) =
            concat (map (\<lambda>k. [Train, Checkpoint, Evaluate]
                                @ (if int k mod 10 = 0 then [Evaluate] else [])) [0..<nat n])"
    if "loaders_nonempty loaders"
    using that by (rule phases_training_loop)
  ultimately show ?thesis by blast
qed

theorem main_order_witness:
  "loaders_nonempty tiny_loaders
   \<and> main tiny_env tiny_cli =
       ([Call_parse, Call_PRNGKey 0, Call_split, Call_print [P_str ''Random Gen Complete''],
         Call_RotNet3, Call_print [P_str ''Network Defined''], Call_load_data 128 4,
         Call_print [P_str ''Data Loaded!''], Call_create_train_state (1 / 4) (9 / 10),
         Call_print [P_str ''Train State Created''], Call_exists ''./state_root'',
         Call_makedirs ''./state_root'', Call_print [P_str ''creating root directory for state''],
         Call_exit],
        Inl SystemExit)
   \<and> training_loop tiny_env tiny_loaders (0, 2, 1 / 4) (range_int 2) =
       (epoch_calls tiny_env tiny_loaders (0, 2, 1 / 4) 0
          @ epoch_calls tiny_env tiny_loaders (2, 7 / 8, 1 / 4) 1,
        Inr (4, 65 / 64, 1 / 4))
   \<and> filter (\<lambda>c. \<not> is_print c) (epoch_calls tiny_env tiny_loaders (0, 2, 1 / 4) 0) =
       [Call_train_epoch (0, 2, 1 / 4) Rot_train_loader True 4,
        Call_save_checkpoint ''./state_root'' (2, 7 / 8, 1 / 4) 0,
        Call_eval_model (2, 7 / 8, 1 / 4) Rot_validation_loader 4,
        Call_eval_model (2, 7 / 8, 1 / 4) Rot_test_loader 4]"
proof -
  note order = main_order [where e = tiny_env and c = tiny_cli and loaders = tiny_loaders
      and state = "(0, 2, 1 / 4)" and n = 2]
  have created: "create_train_state (lib tiny_env) (setup_rng tiny_env) (RotNet3 tiny_env)
      (arg_lr (parse tiny_cli)) (arg_momentum (parse tiny_cli)) = Inr (0, 2, 1 / 4)"
    by (simp add: create_train_state_def getitem_def parse_def or_default_def tiny_defs)
  from order have "main tiny_env tiny_cli =
      (setup_calls (parse tiny_cli) @ directory_calls (os_path_exists tiny_env ''./state_root'')
         @ [Call_exit], Inl SystemExit)"
    by (simp add: created)
  then have main: "main tiny_env tiny_cli =
       ([Call_parse, Call_PRNGKey 0, Call_split, Call_print [P_str ''Random Gen Complete''],
         Call_RotNet3, Call_print [P_str ''Network Defined''], Call_load_data 128 4,
         Call_print [P_str ''Data Loaded!''], Call_create_train_state (1 / 4) (9 / 10),
         Call_print [P_str ''Train State Created''], Call_exists ''./state_root'',
         Call_makedirs ''./state_root'', Call_print [P_str ''creating root directory for state''],
         Call_exit],
        Inl SystemExit)"
    by (simp add: setup_calls_def directory_calls_def parse_def or_default_def tiny_cli_def
        tiny_env_def)
  from order tiny_loaders_nonempty have "training_loop tiny_env tiny_loaders (0, 2, 1 / 4) (range_int 2) =
      (concat (map (\<lambda>k. epoch_calls tiny_env tiny_loaders
                           (epochs_trained tiny_env tiny_loaders (0, 2, 1 / 4) k) (int k))
                 [0..<nat 2]),
       Inr (epochs_trained tiny_env tiny_loaders (0, 2, 1 / 4) (nat 2)))"
    by blast
  then have loop: "training_loop tiny_env tiny_loaders (0, 2, 1 / 4) (range_int 2) =
       (epoch_calls tiny_env tiny_loaders (0, 2, 1 / 4) 0
          @ epoch_calls tiny_env tiny_loaders (2, 7 / 8, 1 / 4) 1,
        Inr (4, 65 / 64, 1 / 4))"
    by (simp add: numeral_2_eq_2 upt_conv_Cons tiny_epochs_trained
        del: upt_Suc epochs_trained.simps)
  have "filter (\<lambda>c. \<not> is_print c) (epoch_calls tiny_env tiny_loaders (0, 2, 1 / 4) 0) =
       [Call_train_epoch (0, 2, 1 / 4) Rot_train_loader True 4,
        Call_save_checkpoint ''./state_root'' (2, 7 / 8, 1 / 4) 0,
        Call_eval_model (2, 7 / 8, 1 / 4) Rot_validation_loader 4,
        Call_eval_model (2, 7 / 8, 1 / 4) Rot_test_loader 4]"
    by (simp add: tiny_epoch_calls_0)
  with main loop tiny_loaders_nonempty show ?thesis by simp
qed

text \<open>
  Claim C5, as stated: every epoch iteration of the training loop of \<open>main\<close> saves a
  checkpoint and runs a validation evaluation. With \<open>--epochs 2\<close>, \<open>main\<close> makes no
  checkpoint save and no validation evaluation; and the loop run on its own with an empty
  rotation training loader starts its first iteration and raises \<open>IndexError\<close> in it, before
  any checkpoint save.
\<close>

theorem every_epoch_as_claimed_counterexample:
  "arg_epochs (parse tiny_cli) = 2
   \<and> filter is_save_checkpoint (calls (main tiny_env tiny_cli)) = []
   \<and> filter is_validation_report (calls (main tiny_env tiny_cli)) = []
   \<and> training_loop tiny_env (tiny_loaders\<lparr>rot_train_loader := []\<rparr>) (0, 2, 1 / 4) (range_int 2) =
       ([Call_train_epoch (0, 2, 1 / 4) Rot_train_loader True 4], Inl IndexError)"
  by (simp add: main_saves_nothing main_validates_nothing tiny_empty_train_loop)
    (simp add: parse_def or_default_def tiny_cli_def)

text \<open>
  Claim C5, as amended. \<open>main\<close> saves no checkpoint and evaluates nothing. The epoch loop
  written after \<open>exit()\<close>, run over \<open>range(n)\<close> on non-empty rotation loaders, saves exactly
  one checkpoint per epoch \<open>k\<close>, in order, to \<open>./state_root\<close>, with step \<open>k\<close> and the state
  after \<open>k + 1\<close> training passes as target; in each epoch it evaluates that same state once
  on the validation loader with 4 classes and prints the loss \<open>eval_model\<close> returns, which is
  the mean over the validation batches of the loss of the model applied with
  \<open>mutable=False\<close> and \<open>train=False\<close>; and it returns the state after \<open>n\<close> passes.
\<close>

theorem loop_checkpoints_and_evaluates_every_epoch:
  assumes "loaders_nonempty loaders"
  shows "filter is_save_checkpoint (calls (training_loop e loaders state (range_int n))) =
           map (\<lambda>k. Call_save_checkpoint ''./state_root''
                       (epochs_trained e loaders state (Suc k)) (int k)) [0..<nat n]
       \<and> filter is_validation_report (calls (training_loop e loaders state (range_int n))) =
           concat (map (\<lambda>k.
             [Call_eval_model (epochs_trained e loaders state (Suc k)) Rot_validation_loader 4,
              Call_print
                [P_str ''validation loss: '',
                 P_float ''.4f'' (inference_loss (lib e) 4 (epochs_trained e loaders state (Suc k))
                                    (rot_validation_loader loaders))]]) [0..<nat n])
       \<and> (\<forall>s. eval_model (lib e) s (rot_validation_loader loaders) 4 =
                ([], Inr (inference_loss (lib e) 4 s (rot_validation_loader loaders),
                          inference_accuracy (lib e) s (rot_validation_loader loaders))))
       \<and> outcome (training_loop e loaders state (range_int n)) =
           Inr (epochs_trained e loaders state (nat n))
       \<and> filter is_save_checkpoint (calls (main e c)) = []
       \<and> filter is_validation_report (calls (main e c)) = []"
proof -
  note loop = training_loop_range_explicit [OF assms, of e state n]
  have saves: "filter is_save_checkpoint (calls (training_loop e loaders state (range_int n))) =
      map (\<lambda>k. Call_save_checkpoint ''./state_root''
                  (epochs_trained e loaders state (Suc k)) (int k)) [0..<nat n]"
    by (simp add: loop calls_def filter_concat comp_def saves_epoch_calls concat_singletons
        epochs_trained_Suc del: epochs_trained.simps)
  have reports: "filter is_validation_report (calls (training_loop e loaders state (range_int n))) =
      concat (map (\<lambda>k.
        [Call_eval_model (epochs_trained e loaders state (Suc k)) Rot_validation_loader 4,
         Call_print
           [P_str ''validation loss: '',
            P_float ''.4f'' (inference_loss (lib e) 4 (epochs_trained e loaders state (Suc k))
                               (rot_validation_loader loaders))]]) [0..<nat n])"
    by (simp add: loop calls_def filter_concat comp_def validation_reports_epoch_calls
        epochs_trained_Suc del: epochs_trained.simps)
  from assms have "rot_validation_loader loaders \<noteq> []"
    by (simp add: loaders_nonempty_def)
  then have evaluation: "\<forall>s. eval_model (lib e) s (rot_validation_loader loaders) 4 =
      ([], Inr (inference_loss (lib e) 4 s (rot_validation_loader loaders),
                inference_accuracy (lib e) s (rot_validation_loader loaders)))"
    by (simp add: eval_model_explicit)
  have "outcome (training_loop e loaders state (range_int n)) =
      Inr (epochs_trained e loaders state (nat n))"
    by (simp add: loop outcome_def)
  with saves reports evaluation show ?thesis
    by (simp add: main_saves_nothing main_validates_nothing)
qed

theorem loop_checkpoints_and_evaluates_every_epoch_witness:
  "loaders_nonempty tiny_loaders
   \<and> filter is_save_checkpoint
         (calls (training_loop tiny_env tiny_loaders (0, 2, 1 / 4) (range_int 2))) =
       [Call_save_checkpoint ''./state_root'' (2, 7 / 8, 1 / 4) 0,
        Call_save_checkpoint ''./state_root'' (4, 65 / 64, 1 / 4) 1]
   \<and> filter is_validation_report
         (calls (training_loop tiny_env tiny_loaders (0, 2, 1 / 4) (range_int 2))) =
       [Call_eval_model (2, 7 / 8, 1 / 4) Rot_validation_loader 4,
        Call_print [P_str ''validation loss: '', P_float ''.4f'' (81 / 64)],
        Call_eval_model (4, 65 / 64, 1 / 4) Rot_validation_loader 4,
        Call_print [P_str ''validation loss: '', P_float ''.4f'' (3969 / 4096)]]
   \<and> eval_model tiny_lib (2, 7 / 8, 1 / 4) [([1], [2])] 4 = ([], Inr (81 / 64, 0))"
proof -
  note every = loop_checkpoints_and_evaluates_every_epoch [OF tiny_loaders_nonempty,
      where e = tiny_env and state = "(0, 2, 1 / 4)" and n = 2 and c = tiny_cli]
  have env: "lib tiny_env = tiny_lib" "rot_validation_loader tiny_loaders = [([1], [2])]"
    by (simp_all add: tiny_env_def tiny_loaders_def)
  have v1: "inference_loss tiny_lib 4 (2, 7 / 8, 1 / 4) [([1], [2])] = 81 / 64"
    and v2: "inference_loss tiny_lib 4 (4, 65 / 64, 1 / 4) [([1], [2])] = 3969 / 4096"
    and a1: "inference_accuracy tiny_lib (2, 7 / 8, 1 / 4) [([1], [2])] = 0"
    by (simp_all add: meaning_defs tiny_defs)
  from every have "filter is_save_checkpoint
         (calls (training_loop tiny_env tiny_loaders (0, 2, 1 / 4) (range_int 2))) =
       [Call_save_checkpoint ''./state_root'' (2, 7 / 8, 1 / 4) 0,
        Call_save_checkpoint ''./state_root'' (4, 65 / 64, 1 / 4) 1]"
    by (simp add: numeral_2_eq_2 upt_conv_Cons tiny_epochs_trained
        del: upt_Suc epochs_trained.simps)
  moreover from every have "filter is_validation_report
         (calls (training_loop tiny_env tiny_loaders (0, 2, 1 / 4) (range_int 2))) =
       [Call_eval_model (2, 7 / 8, 1 / 4) Rot_validation_loader 4,
        Call_print [P_str ''validation loss: '', P_float ''.4f'' (81 / 64)],
        Call_eval_model (4, 65 / 64, 1 / 4) Rot_validation_loader 4,
        Call_print [P_str ''validation loss: '', P_float ''.4f'' (3969 / 4096)]]"
    by (simp add: numeral_2_eq_2 upt_conv_Cons tiny_epochs_trained env v1 v2
        del: upt_Suc epochs_trained.simps)
  moreover from every have "eval_model tiny_lib (2, 7 / 8, 1 / 4) [([1], [2])] 4 = ([], Inr (81 / 64, 0))"
    by (simp add: env v1 a1)
  ultimately show ?thesis using tiny_loaders_nonempty by simp
qed

text \<open>
  Claim C6. For a library that computes what its documentation says, and a batch of at
  least one row of \<open>num_classes\<close> logits with as many labels as rows:
  \<open>cross_entropy_loss\<close> is the arithmetic mean over the batch of the softmax cross-entropy of
  each row against the one-hot row of its label, which for labels within the classes is the
  mean of \<open>ln (sum of exp of the row) - (the row's entry at the label)\<close>; and
  \<open>compute_metrics\<close> returns that same loss under \<open>loss\<close> and, under \<open>accuracy\<close>, the number
  of positions whose argmax is the label divided by the number of positions, the argmax of
  a row being the first index that holds its maximum.
\<close>

theorem loss_and_accuracy_meaning:
  assumes lib: "library_as_documented l rows vec ints"
    and batch: "length (rows logits) = length (ints labels)" "ints labels \<noteq> []"
    and width: "\<forall>z \<in> set (rows logits). length z = nat num_classes" "0 < num_classes"
  shows "cross_entropy_loss l logits labels num_classes =
           mean_over (map2 softmax_cross_entropy_row (rows logits)
                        (map (one_hot_row num_classes) (ints labels)))
       \<and> ((\<forall>y \<in> set (ints labels). 0 \<le> y \<and> y < num_classes) \<longrightarrow>
            cross_entropy_loss l logits labels num_classes =
              mean_over (map2 (\<lambda>z y. ln (sum_list (map exp z)) - z ! nat y)
                           (rows logits) (ints labels)))
       \<and> compute_metrics l logits labels num_classes =
           [(''loss'', cross_entropy_loss l logits labels num_classes),
            (''accuracy'', match_fraction (rows logits) (ints labels))]
       \<and> (\<forall>z \<in> set (rows logits).
             argmax_row z < length z \<and> (\<forall>x \<in> set z. x \<le> z ! argmax_row z)
             \<and> (\<forall>i < argmax_row z. z ! i < z ! argmax_row z))"
proof -
  let ?onehot = "jax_nn_one_hot l labels num_classes"
  let ?per_example = "optax_softmax_cross_entropy l logits ?onehot"
  from lib have onehot: "rows ?onehot = map (one_hot_row num_classes) (ints labels)"
    by (simp add: library_as_documented_def)
  have shapes: "length (rows logits) = length (rows ?onehot)
      \<and> (\<forall>(r, s) \<in> set (zip (rows logits) (rows ?onehot)). length r = length s)"
    using batch width
    by (auto simp: onehot one_hot_row_def zip_map2 dest: set_zip_leftD)
  with lib have per_example: "vec ?per_example =
      map2 softmax_cross_entropy_row (rows logits) (map (one_hot_row num_classes) (ints labels))"
    unfolding library_as_documented_def onehot [symmetric] by blast
  then have "vec ?per_example \<noteq> []"
    using batch by (cases "rows logits"; cases "ints labels") auto
  with lib have "jnp_mean l ?per_example = sum_list (vec ?per_example) / real (length (vec ?per_example))"
    unfolding library_as_documented_def by blast
  then have loss: "cross_entropy_loss l logits labels num_classes =
      mean_over (map2 softmax_cross_entropy_row (rows logits)
                   (map (one_hot_row num_classes) (ints labels)))"
    by (simp add: cross_entropy_loss_def mean_over_def per_example)
  have in_range: "cross_entropy_loss l logits labels num_classes =
      mean_over (map2 (\<lambda>z y. ln (sum_list (map exp z)) - z ! nat y) (rows logits) (ints labels))"
    if "\<forall>y \<in> set (ints labels). 0 \<le> y \<and> y < num_classes"
  proof -
    have "map2 softmax_cross_entropy_row (rows logits) (map (one_hot_row num_classes) (ints labels))
        = map2 (\<lambda>z y. ln (sum_list (map exp z)) - z ! nat y) (rows logits) (ints labels)"
    proof -
      have "softmax_cross_entropy_row z (one_hot_row num_classes y)
          = ln (sum_list (map exp z)) - z ! nat y"
        if "(z, y) \<in> set (zip (rows logits) (ints labels))" for z y
      proof -
        from that have "z \<in> set (rows logits)" and "y \<in> set (ints labels)"
          by (auto dest: set_zip_leftD set_zip_rightD)
        with \<open>\<forall>y \<in> set (ints labels). 0 \<le> y \<and> y < num_classes\<close> width(1)
        show ?thesis by (simp add: cross_entropy_one_hot)
      qed
      then show ?thesis by (auto simp: zip_map2)
    qed
    with loss show ?thesis by simp
  qed
  let ?predicted = "jnp_argmax l logits (- 1)"
  have "\<forall>r \<in> set (rows logits). r \<noteq> []"
    using width by auto
  with lib have predicted: "ints ?predicted = map (\<lambda>r. int (argmax_row r)) (rows logits)"
    unfolding library_as_documented_def by blast
  then have same_length: "length (ints ?predicted) = length (ints labels)"
    using batch by simp
  with lib have hits: "vec (jnp_equal l ?predicted labels) =
      map2 (\<lambda>x y. if x = y then 1 else 0) (ints ?predicted) (ints labels)"
    unfolding library_as_documented_def by blast
  then have "vec (jnp_equal l ?predicted labels) \<noteq> []"
    using same_length batch by (cases "ints ?predicted"; cases "ints labels") auto
  with lib have "jnp_mean l (jnp_equal l ?predicted labels) =
      sum_list (vec (jnp_equal l ?predicted labels)) / real (length (vec (jnp_equal l ?predicted labels)))"
    unfolding library_as_documented_def by blast
  then have "jnp_mean l (jnp_equal l ?predicted labels) = match_fraction (rows logits) (ints labels)"
    using same_length
    by (simp add: hits sum_indicators match_fraction_def predicted filter_zip_map1)
  then have "compute_metrics l logits labels num_classes =
      [(''loss'', cross_entropy_loss l logits labels num_classes),
       (''accuracy'', match_fraction (rows logits) (ints labels))]"
    by (simp add: compute_metrics_def)
  moreover have "argmax_row z < length z \<and> (\<forall>x \<in> set z. x \<le> z ! argmax_row z)
      \<and> (\<forall>i < argmax_row z. z ! i < z ! argmax_row z)" if "z \<in> set (rows logits)" for z
  proof -
    from that width have "z \<noteq> []" by auto
    then show ?thesis by (rule argmax_row_is_first_maximum)
  qed
  ultimately show ?thesis using loss in_range by blast
qed

theorem loss_and_accuracy_meaning_witness:
  "library_as_documented exact_lib rows_of vec_of ints_of
   \<and> cross_entropy_loss exact_lib (Mat [[0, 0], [1, 3]]) (Ints [1, 1]) 2
       = (ln 2 + (ln (exp 1 + exp 3) - 3)) / 2
   \<and> compute_metrics exact_lib (Mat [[0, 0], [1, 3]]) (Ints [1, 1]) 2
       = [(''loss'', (ln 2 + (ln (exp 1 + exp 3) - 3)) / 2), (''accuracy'', 1 / 2)]"
proof -
  note meaning = loss_and_accuracy_meaning [OF exact_lib_as_documented,
      where logits = "Mat [[0, 0], [1, 3]]" and labels = "Ints [1, 1]" and num_classes = 2]
  have shape: "length (rows_of (Mat [[0, 0], [1, 3]])) = length (ints_of (Ints [1, 1]))"
    "ints_of (Ints [1, 1]) \<noteq> []"
    "\<forall>z \<in> set (rows_of (Mat [[0, 0], [1, 3]])). length z = nat 2" "(0::int) < 2"
    by simp_all
  note at = meaning [OF shape]
  have in_range: "\<forall>y \<in> set (ints_of (Ints [1, 1])). 0 \<le> y \<and> y < 2" by simp
  from at in_range have "cross_entropy_loss exact_lib (Mat [[0, 0], [1, 3]]) (Ints [1, 1]) 2
      = mean_over (map2 (\<lambda>z y. ln (sum_list (map exp z)) - z ! nat y)
          (rows_of (Mat [[0, 0], [1, 3]])) (ints_of (Ints [1, 1])))"
    by blast
  then have loss: "cross_entropy_loss exact_lib (Mat [[0, 0], [1, 3]]) (Ints [1, 1]) 2
      = (ln 2 + (ln (exp 1 + exp 3) - 3)) / 2"
    by (simp add: mean_over_def)
  have "match_fraction (rows_of (Mat [[0, 0], [1, 3]])) (ints_of (Ints [1, 1])) = 1 / 2"
    by (simp add: match_fraction_def)
  with at loss have "compute_metrics exact_lib (Mat [[0, 0], [1, 3]]) (Ints [1, 1]) 2
       = [(''loss'', (ln 2 + (ln (exp 1 + exp 3) - 3)) / 2), (''accuracy'', 1 / 2)]"
    by simp
  with loss exact_lib_as_documented show ?thesis by simp
qed

text \<open>
  Claim C7. One call of \<open>train_epoch\<close> on a non-empty dataloader returns the state obtained
  by folding \<open>train_batch\<close> over the batches in order, one call per batch; it prints one
  progress line per batch, numbered from 0; and each \<open>train_batch\<close> is one
  \<open>apply_gradients\<close> on the state it was given, with the gradient of that batch's loss.
\<close>

theorem train_epoch_is_one_pass:
  assumes "dataloader \<noteq> []"
  shows "(\<exists>epoch_metrics. outcome (train_epoch l state dataloader rot_train num_classes) =
            Inr (foldl (\<lambda>s (images, labels). fst (train_batch l s images labels num_classes))
                   state dataloader,
                 epoch_metrics))
       \<and> calls (train_epoch l state dataloader rot_train num_classes) =
            map (\<lambda>i. Call_print [P_int (int i), P_str ''/'', P_int (int (length dataloader))])
              [0..<length dataloader]
       \<and> (\<forall>s images labels.
             fst (train_batch l s images labels num_classes) =
               state_apply_gradients l s
                 (jax_grad l (\<lambda>params. fst (loss_fn l s images labels num_classes params))
                    (state_params l s)))"
proof -
  have "fst (train_batch l s images labels num_classes) =
      state_apply_gradients l s
        (jax_grad l (\<lambda>params. fst (loss_fn l s images labels num_classes params))
           (state_params l s))" for s images labels
    by (simp add: train_batch_def value_and_grad_def Let_def split: prod.split)
  then show ?thesis
    using assms
    by (simp add: outcome_def calls_def train_epoch_run train_pass_state_foldl progress_lines_def)
qed

theorem train_epoch_is_one_pass_witness:
  "tiny_batches \<noteq> []
   \<and> (\<exists>epoch_metrics. outcome (train_epoch tiny_lib (0, 2, 1 / 4) tiny_batches False 4) =
         Inr ((2, 7 / 8, 1 / 4), epoch_metrics))
   \<and> calls (train_epoch tiny_lib (0, 2, 1 / 4) tiny_batches False 4) =
       [Call_print [P_int 0, P_str ''/'', P_int 2], Call_print [P_int 1, P_str ''/'', P_int 2]]"
proof -
  have ne: "tiny_batches \<noteq> []" by (simp add: tiny_batches_def)
  note pass = train_epoch_is_one_pass [OF ne, of tiny_lib "(0, 2, 1 / 4)" False 4]
  have step1: "fst (train_batch tiny_lib (0, 2, 1 / 4) [1] [1] 4) = (1, 3 / 2, 1 / 4)"
    by (simp add: tiny_defs step_defs)
  have step2: "fst (train_batch tiny_lib (1, 3 / 2, 1 / 4) [1, 2] [1, 2] 4) = (2, 7 / 8, 1 / 4)"
    by (simp add: tiny_defs step_defs)
  have fold: "foldl (\<lambda>s (images, labels). fst (train_batch tiny_lib s images labels 4))
      (0, 2, 1 / 4) tiny_batches = (2, 7 / 8, 1 / 4)"
    by (simp add: tiny_batches_def step1 step2)
  from pass [THEN conjunct1] have state:
    "\<exists>epoch_metrics. outcome (train_epoch tiny_lib (0, 2, 1 / 4) tiny_batches False 4) =
       Inr ((2, 7 / 8, 1 / 4), epoch_metrics)"
    by (simp only: fold)
  from pass [THEN conjunct2, THEN conjunct1] have printed:
    "calls (train_epoch tiny_lib (0, 2, 1 / 4) tiny_batches False 4) =
       [Call_print [P_int 0, P_str ''/'', P_int 2], Call_print [P_int 1, P_str ''/'', P_int 2]]"
    by (simp add: tiny_batches_def)
  from ne state printed show ?thesis by blast
qed

text \<open>
  Claim C8. On a dataloader that yields no batch, \<open>train_epoch\<close> and \<open>eval_model\<close> raise
  \<open>IndexError\<close>; each of them returns a value exactly when the dataloader is non-empty.
\<close>

theorem empty_dataloader_raises:
  "outcome (train_epoch l state [] rot_train num_classes) = Inl IndexError
   \<and> outcome (eval_model l state [] num_classes) = Inl IndexError
   \<and> ((\<exists>r. outcome (train_epoch l state dataloader rot_train num_classes) = Inr r)
        = (dataloader \<noteq> []))
   \<and> ((\<exists>r. outcome (eval_model l state dataloader num_classes) = Inr r)
        = (dataloader \<noteq> []))"
proof (cases "dataloader = []")
  case True
  then show ?thesis by (simp add: outcome_def train_epoch_empty eval_model_empty)
next
  case False
  then show ?thesis
    by (simp add: outcome_def train_epoch_empty eval_model_empty train_epoch_run eval_model_run)
qed

theorem empty_dataloader_raises_witness:
  "outcome (train_epoch tiny_lib (0, 2, 1 / 4) [] False 4) = Inl IndexError
   \<and> outcome (eval_model tiny_lib (0, 2, 1 / 4) [] 4) = Inl IndexError
   \<and> (\<exists>r. outcome (train_epoch tiny_lib (0, 2, 1 / 4) tiny_batches False 4) = Inr r)
   \<and> (\<exists>r. outcome (eval_model tiny_lib (0, 2, 1 / 4) tiny_batches 4) = Inr r)"
  using empty_dataloader_raises [of tiny_lib "(0, 2, 1 / 4)" False 4 tiny_batches]
  by (simp add: tiny_batches_def)

text \<open>
  Claim C9. \<open>eval_batch\<close> and \<open>eval_model\<close> return metrics only and make no call with an
  effect. What they return is the same when the state's apply function is replaced by any
  other that agrees with it on calls with \<open>mutable=False\<close> and \<open>train=False\<close>, and when
  \<open>apply_gradients\<close> and the gradient operator are replaced by anything: the model is
  applied in that mode only and no gradient is applied. Every batch of an evaluation pass is
  evaluated on the state \<open>eval_model\<close> was given, and the state an epoch iteration hands on,
  after its evaluations, is the one \<open>train_epoch\<close> returned.
\<close>

theorem eval_leaves_state_alone:
  assumes "\<forall>s v x. fst (f s v x Mutable_False False) = fst (state_apply_fn l s v x Mutable_False False)"
  shows "eval_batch (l\<lparr>state_apply_fn := f, state_apply_gradients := g, jax_grad := d\<rparr>)
           state images labels num_classes
         = eval_batch l state images labels num_classes
       \<and> eval_model (l\<lparr>state_apply_fn := f, state_apply_gradients := g, jax_grad := d\<rparr>)
           state dataloader num_classes
         = eval_model l state dataloader num_classes
       \<and> calls (eval_model l state dataloader num_classes) = []
       \<and> eval_model_loop l num_classes state [] dataloader
         = map (\<lambda>(images, labels). eval_batch l state images labels num_classes) dataloader
       \<and> (loaders_nonempty loaders \<longrightarrow>
            outcome (epoch_body e loaders state epoch) =
              outcome (then_run (train_epoch (lib e) state (rot_train_loader loaders) True 4)
                         (\<lambda>(state', epoch_metrics). ret state')))"
proof -
  have "calls (eval_model l state dataloader num_classes) = []"
    by (cases "dataloader = []") (simp_all add: calls_def eval_model_empty eval_model_run)
  moreover have "outcome (epoch_body e loaders state epoch) =
      outcome (then_run (train_epoch (lib e) state (rot_train_loader loaders) True 4)
                 (\<lambda>(state', epoch_metrics). ret state'))" if "loaders_nonempty loaders"
  proof -
    from that have "rot_train_loader loaders \<noteq> []" by (simp add: loaders_nonempty_def)
    then show ?thesis
      unfolding epoch_body_run(2) [OF that]
      by (simp add: train_epoch_run then_run_Inr outcome_def ret_def)
  qed
  ultimately show ?thesis
    by (simp add: eval_batch_inference [where f = f and l = l, OF assms] eval_model_def
        eval_pass_metrics_inference [where f = f and l = l, OF assms] eval_model_loop_run)
qed

theorem eval_leaves_state_alone_witness:
  "(\<forall>s v x. fst (tiny_inference_apply s v x Mutable_False False)
            = fst (state_apply_fn tiny_lib s v x Mutable_False False))
   \<and> loaders_nonempty tiny_loaders
   \<and> eval_batch (tiny_lib\<lparr>state_apply_fn := tiny_inference_apply,
                   state_apply_gradients := \<lambda>s grads. s, jax_grad := \<lambda>f p. 0\<rparr>)
         (0, 2, 1 / 4) [1, 2] [1, 2] 4 = [(''loss'', 5 / 2), (''accuracy'', 1 / 2)]
   \<and> eval_model (tiny_lib\<lparr>state_apply_fn := tiny_inference_apply,
                   state_apply_gradients := \<lambda>s grads. s, jax_grad := \<lambda>f p. 0\<rparr>)
         (0, 2, 1 / 4) tiny_batches 4 = ([], Inr (7 / 4, 1 / 4))
   \<and> outcome (epoch_body tiny_env tiny_loaders (0, 2, 1 / 4) 0) = Inr (2, 7 / 8, 1 / 4)"
proof -
  have agree: "\<forall>s v x. fst (tiny_inference_apply s v x Mutable_False False)
            = fst (state_apply_fn tiny_lib s v x Mutable_False False)"
    by (simp add: tiny_inference_apply_def tiny_lib_def)
  note frame = eval_leaves_state_alone [where f = tiny_inference_apply and l = tiny_lib, OF agree,
      where g = "\<lambda>s grads. s" and d = "\<lambda>f p. 0" and state = "(0, 2, 1 / 4)" and num_classes = 4
      and e = tiny_env and loaders = tiny_loaders and epoch = 0]
  have batch: "eval_batch tiny_lib (0, 2, 1 / 4) [1, 2] [1, 2] 4 = [(''loss'', 5 / 2), (''accuracy'', 1 / 2)]"
    by (simp add: tiny_defs step_defs)
  have train: "train_epoch (lib tiny_env) (0, 2, 1 / 4) (rot_train_loader tiny_loaders) True 4 =
      train_epoch tiny_lib (0, 2, 1 / 4) tiny_batches True 4"
    by (simp add: tiny_env_def tiny_loaders_def)
  have train_run: "train_epoch tiny_lib (0, 2, 1 / 4) tiny_batches True 4 =
     ([Call_print [P_int 0, P_str ''/'', P_int 2], Call_print [P_int 1, P_str ''/'', P_int 2]],
      Inr ((2, 7 / 8, 1 / 4), [(''loss'', 13 / 16), (''accuracy'', 1 / 4)]))"
    using tiny_train_epoch by (simp only: train_epoch_def)
  from frame tiny_loaders_nonempty
  have "outcome (epoch_body tiny_env tiny_loaders (0, 2, 1 / 4) 0) = Inr (2, 7 / 8, 1 / 4)"
    by (simp add: train train_run then_run_Inr ret_def outcome_def)
  moreover from frame have "eval_batch (tiny_lib\<lparr>state_apply_fn := tiny_inference_apply,
                   state_apply_gradients := \<lambda>s grads. s, jax_grad := \<lambda>f p. 0\<rparr>)
         (0, 2, 1 / 4) [1, 2] [1, 2] 4 = [(''loss'', 5 / 2), (''accuracy'', 1 / 2)]"
    by (simp add: batch)
  moreover from frame have "eval_model (tiny_lib\<lparr>state_apply_fn := tiny_inference_apply,
                   state_apply_gradients := \<lambda>s grads. s, jax_grad := \<lambda>f p. 0\<rparr>)
         (0, 2, 1 / 4) tiny_batches 4 = ([], Inr (7 / 4, 1 / 4))"
    by (simp add: tiny_eval_model)
  ultimately show ?thesis using agree tiny_loaders_nonempty by blast
qed

text \<open>
  Claim C10. The value given to \<open>--model\<close> reaches \<open>args.model\<close> and nothing else: the run
  of \<open>main\<close>, the calls of the setup phase, the loaders and the train state it builds, and
  the run of the statements after \<open>exit()\<close> are the same whatever that value is.
\<close>

theorem model_flag_is_ignored:
  "main e (c\<lparr>cli_model := m\<rparr>) = main e c
   \<and> parse (c\<lparr>cli_model := m\<rparr>) = (parse c)\<lparr>arg_model := or_default m ''ResNet20''\<rparr>
   \<and> calls (main_setup e (c\<lparr>cli_model := m\<rparr>)) = calls (main_setup e c)
   \<and> map_sum id (\<lambda>(args, loaders, state). (loaders, state)) (outcome (main_setup e (c\<lparr>cli_model := m\<rparr>)))
       = map_sum id (\<lambda>(args, loaders, state). (loaders, state)) (outcome (main_setup e c))
   \<and> main_training e (args\<lparr>arg_model := v\<rparr>) loaders state = main_training e args loaders state"
proof -
  have p: "parse (c\<lparr>cli_model := m\<rparr>) = (parse c)\<lparr>arg_model := or_default m ''ResNet20''\<rparr>"
    by (simp add: parse_def)
  have s: "calls (main_setup e (c\<lparr>cli_model := m\<rparr>)) = calls (main_setup e c)"
    by (simp add: main_setup_run p calls_def setup_calls_def split: sum.split)
  have t: "map_sum id (\<lambda>(args, loaders, state). (loaders, state)) (outcome (main_setup e (c\<lparr>cli_model := m\<rparr>)))
       = map_sum id (\<lambda>(args, loaders, state). (loaders, state)) (outcome (main_setup e c))"
    by (simp add: main_setup_run p outcome_def split: sum.split)
  have o: "outcome (main_setup e (c\<lparr>cli_model := m\<rparr>)) = Inl err \<longleftrightarrow> outcome (main_setup e c) = Inl err" for err
    by (simp add: main_setup_run p outcome_def split: sum.split)
  have "main e (c\<lparr>cli_model := m\<rparr>) = main e c"
    using o by (simp add: main_run s split: sum.split) (metis sum.distinct(1))
  moreover have "main_training e (args\<lparr>arg_model := v\<rparr>) loaders state = main_training e args loaders state"
    by (simp add: main_training_def)
  ultimately show ?thesis using p s t by simp
qed

theorem model_flag_is_ignored_witness:
  "arg_model (parse (tiny_cli\<lparr>cli_model := Some ''RotNet4''\<rparr>)) = ''RotNet4''
   \<and> arg_model (parse tiny_cli) = ''RotNet5''
   \<and> main tiny_env (tiny_cli\<lparr>cli_model := Some ''RotNet4''\<rparr>) = main tiny_env tiny_cli
   \<and> outcome (main tiny_env tiny_cli) = Inl SystemExit"
proof -
  note flag = model_flag_is_ignored [where e = tiny_env and c = tiny_cli and m = "Some ''RotNet4''"]
  have "arg_model (parse (tiny_cli\<lparr>cli_model := Some ''RotNet4''\<rparr>)) = ''RotNet4''"
    by (simp add: flag [THEN conjunct2, THEN conjunct1] or_default_def)
  moreover have "arg_model (parse tiny_cli) = ''RotNet5''"
    by (simp add: parse_def or_default_def tiny_cli_def)
  moreover have "outcome (main tiny_env tiny_cli) = Inl SystemExit"
    by (simp add: tiny_main outcome_def)
  ultimately show ?thesis using flag [THEN conjunct1] by simp
qed

end
